theory Spec2Isabelle
  imports Complex_Main "HOL-Library.AList" "HOL-Library.Log_Nat" "HOL-Library.Product_Lexorder"
begin

section \<open>Conventions of the embedding\<close>

text \<open>
  The Python sources of VictoryQuant are embedded function by function. Python \<open>int\<close> is
  \<open>int\<close>. A \<open>dict\<close> whose iteration order the code relies on is an association list
  in insertion order (\<open>AList.update\<close> replaces the value of a present key in place and
  appends an absent key at the end, as a Python dictionary does). Every \<open>raise\<close> of the
  source is a value on the left of a sum. Methods whose Python name starts with an
  underscore drop it (\<open>_execute_buy\<close> is \<open>execute_buy\<close>), since an identifier cannot
  start with one here, and the fields of the records carry a short prefix, since two
  records cannot share a field name.

  Floating-point numbers. The backtest engine computes in binary64: every operation on
  floats rounds its exact result to the nearest double (\<open>fl\<close> below), and a division of a
  \<open>numpy.float64\<close> by zero gives an infinity or NaN instead of raising. The simulated
  broker, the position manager and the performance analyzer are embedded in exact
  arithmetic: what is proved of them are equations between the expressions the code
  evaluates and the order of its tests, not digits.
\<close>

datatype py_error = ZeroDivisionError | KeyError | IndexError | TypeError | OverflowError | ValueError

text \<open>\<open>int(x)\<close> on a float truncates towards zero.\<close>

definition py_int :: "real \<Rightarrow> int" where
  "py_int x = (if 0 \<le> x then \<lfloor>x\<rfloor> else \<lceil>x\<rceil>)"

text \<open>
  A \<open>datetime\<close> is the ordinal of its calendar day together with the time of day;
  \<open>.date()\<close> keeps the day.
\<close>

type_synonym datetime = "int \<times> nat"

definition date_of :: "datetime \<Rightarrow> int" where
  "date_of ts = fst ts"

section \<open>strategy/base/signal.py\<close>

datatype SignalType = BUY | SELL | HOLD | CLOSE_LONG | CLOSE_SHORT

text \<open>
  The dataclass \<open>Signal\<close>. Its \<open>metadata\<close> dictionary is read by none of the functions
  embedded here and is left out.
\<close>

record Signal =
  sg_symbol :: string
  sg_signal_type :: SignalType
  sg_price :: real
  sg_timestamp :: datetime
  sg_strength :: real
  sg_quantity :: "int option"

text \<open>
  The test \<open>signal.quantity and signal.quantity > 0\<close>: \<open>None\<close> and \<open>0\<close> are falsy,
  a negative quantity fails the comparison.
\<close>

definition requested :: "int option \<Rightarrow> int option" where
  "requested q = (case q of None \<Rightarrow> None | Some n \<Rightarrow> (if n \<noteq> 0 \<and> n > 0 then Some n else None))"

section \<open>Floating-point values of numpy and pandas\<close>

text \<open>
  The analyzer computes with numpy scalars and pandas columns, whose arithmetic does not
  raise: a division by zero gives an infinity or NaN, and a comparison with NaN is false.
  A value is therefore a real number, an infinity or NaN; finite results are exact
  (no rounding, no overflow, one zero without sign).
\<close>

datatype fval = Fin real | PInf | NInf | NaN

fun fneg :: "fval \<Rightarrow> fval" where
  "fneg (Fin x) = Fin (- x)"
| "fneg PInf = NInf"
| "fneg NInf = PInf"
| "fneg NaN = NaN"

fun fadd :: "fval \<Rightarrow> fval \<Rightarrow> fval" where
  "fadd NaN _ = NaN"
| "fadd _ NaN = NaN"
| "fadd (Fin x) (Fin y) = Fin (x + y)"
| "fadd PInf NInf = NaN"
| "fadd NInf PInf = NaN"
| "fadd PInf _ = PInf"
| "fadd _ PInf = PInf"
| "fadd NInf _ = NInf"
| "fadd _ NInf = NInf"

definition fsub :: "fval \<Rightarrow> fval \<Rightarrow> fval" where
  "fsub a b = fadd a (fneg b)"

text \<open>The sign of a value: \<open>Some True\<close> positive, \<open>Some False\<close> negative, \<open>None\<close> zero or NaN.\<close>

fun fsign :: "fval \<Rightarrow> bool option" where
  "fsign (Fin x) = (if 0 < x then Some True else if x < 0 then Some False else None)"
| "fsign PInf = Some True"
| "fsign NInf = Some False"
| "fsign NaN = None"

definition signed_inf :: "bool \<Rightarrow> fval" where
  "signed_inf pos = (if pos then PInf else NInf)"

fun fmul :: "fval \<Rightarrow> fval \<Rightarrow> fval" where
  "fmul NaN _ = NaN"
| "fmul _ NaN = NaN"
| "fmul (Fin x) (Fin y) = Fin (x * y)"
| "fmul a b = (case (fsign a, fsign b) of
                 (Some s, Some t) \<Rightarrow> signed_inf (s = t)
               | _ \<Rightarrow> NaN)"

fun fdiv :: "fval \<Rightarrow> fval \<Rightarrow> fval" where
  "fdiv NaN _ = NaN"
| "fdiv _ NaN = NaN"
| "fdiv (Fin x) (Fin y) =
     (if y \<noteq> 0 then Fin (x / y)
      else if 0 < x then PInf else if x < 0 then NInf else NaN)"
| "fdiv (Fin x) _ = Fin 0"
| "fdiv a (Fin y) = (case fsign a of
                       Some s \<Rightarrow> signed_inf (s = (0 \<le> y))
                     | None \<Rightarrow> NaN)"
| "fdiv _ _ = NaN"

fun fabs :: "fval \<Rightarrow> fval" where
  "fabs (Fin x) = Fin \<bar>x\<bar>"
| "fabs PInf = PInf"
| "fabs NInf = PInf"
| "fabs NaN = NaN"

fun fsqrt :: "fval \<Rightarrow> fval" where
  "fsqrt (Fin x) = (if 0 \<le> x then Fin (sqrt x) else NaN)"
| "fsqrt PInf = PInf"
| "fsqrt NInf = NaN"
| "fsqrt NaN = NaN"

text \<open>\<open>a < b\<close> and \<open>a == b\<close> on floats: false as soon as one side is NaN.\<close>

fun flt :: "fval \<Rightarrow> fval \<Rightarrow> bool" where
  "flt NaN _ = False"
| "flt _ NaN = False"
| "flt (Fin x) (Fin y) = (x < y)"
| "flt NInf NInf = False"
| "flt NInf _ = True"
| "flt _ NInf = False"
| "flt PInf _ = False"
| "flt _ PInf = True"

fun feq :: "fval \<Rightarrow> fval \<Rightarrow> bool" where
  "feq NaN _ = False"
| "feq _ NaN = False"
| "feq a b = (a = b)"

definition is_integral :: "real \<Rightarrow> bool" where
  "is_integral y = (y = real_of_int \<lfloor>y\<rfloor>)"

text \<open>
  \<open>x ** y\<close> for a float exponent \<open>y\<close>, following the cases of the C function \<open>pow\<close>:
  a negative base has a power for an integral exponent only.
\<close>

definition fpow :: "fval \<Rightarrow> real \<Rightarrow> fval" where
  "fpow a y =
    (if y = 0 then Fin 1
     else case a of
       NaN \<Rightarrow> NaN
     | PInf \<Rightarrow> (if 0 < y then PInf else Fin 0)
     | NInf \<Rightarrow> (if 0 < y then (if is_integral y \<and> odd \<lfloor>y\<rfloor> then NInf else PInf) else Fin 0)
     | Fin x \<Rightarrow>
        (if 0 < x then Fin (x powr y)
         else if x = 0 then (if 0 < y then Fin 0 else PInf)
         else if is_integral y
           then Fin (if even \<lfloor>y\<rfloor> then \<bar>x\<bar> powr y else - (\<bar>x\<bar> powr y))
         else NaN))"

section \<open>Binary64 arithmetic\<close>

text \<open>
  A double has a significand of 53 bits. For \<open>x > 0\<close>, \<open>binade x\<close> is the exponent \<open>e\<close>
  with \<open>2^e \<le> x < 2^(e+1)\<close>; the doubles of that binade are the multiples of
  \<open>2^(e-52)\<close>, and \<open>fl x\<close> is the one nearest to \<open>x\<close>, the one with the even multiple
  when two are equally near. The range of the exponent is not bounded here: overflow to
  an infinity (beyond \<open>1.7e308\<close>) and gradual underflow (below \<open>2.3e-308\<close>) are left
  out. \<open>to_double\<close> is the conversion of a Python \<open>int\<close> that meets a float in an
  operation.
\<close>

definition binade :: "real \<Rightarrow> int" where
  "binade x = (if 1 \<le> x then bitlen \<lfloor>x\<rfloor> - 1 else - bitlen (\<lceil>1 / x\<rceil> - 1))"

definition round_half_even :: "real \<Rightarrow> int" where
  "round_half_even y =
     (let n = \<lfloor>y\<rfloor>; r = y - of_int n
      in if r < 1 / 2 then n else if 1 / 2 < r then n + 1 else if even n then n else n + 1)"

definition fl :: "real \<Rightarrow> real" where
  "fl x = (if x = 0 then 0
           else let u = 2 powi (binade \<bar>x\<bar> - 52)
                in of_int (round_half_even (x / u)) * u)"

definition to_double :: "int \<Rightarrow> real" where
  "to_double n = fl (real_of_int n)"

text \<open>The rounding of a value that may be an infinity or NaN.\<close>

definition round_fval :: "fval \<Rightarrow> fval" where
  "round_fval v = (case v of Fin x \<Rightarrow> Fin (fl x) | _ \<Rightarrow> v)"

section \<open>pandas columns and frames\<close>

text \<open>
  A column (\<open>Series\<close>) is the list of its values. The reductions \<open>sum\<close>, \<open>std\<close> and
  \<open>min\<close> skip NaN, as pandas does by default; \<open>std\<close> is the sample deviation
  (\<open>ddof = 1\<close>) and is NaN on fewer than two values.
\<close>

type_synonym series = "fval list"

definition dropna :: "series \<Rightarrow> series" where
  "dropna xs = filter (\<lambda>v. v \<noteq> NaN) xs"

definition fsum :: "series \<Rightarrow> fval" where
  "fsum xs = foldl fadd (Fin 0) xs"

definition series_std :: "series \<Rightarrow> fval" where
  "series_std xs =
    (let vs = dropna xs; n = length vs in
     if n \<le> 1 then NaN
     else
      let avg = fdiv (fsum vs) (Fin (real n));
          sqr = map (\<lambda>v. fmul (fsub avg v) (fsub avg v)) vs
      in fsqrt (fdiv (fsum sqr) (Fin (real n - 1))))"

definition series_min :: "series \<Rightarrow> fval" where
  "series_min xs =
    (case dropna xs of
       [] \<Rightarrow> NaN
     | v # vs \<Rightarrow> foldl (\<lambda>a b. if flt b a then b else a) v vs)"

text \<open>
  \<open>pct_change\<close>: NaN first, then \<open>x[i] / x[i-1] - 1\<close>. (Older pandas fills NaN entries
  forward beforehand; the columns built by the engine have none.)
\<close>

definition pct_change :: "series \<Rightarrow> series" where
  "pct_change xs =
    (case xs of
       [] \<Rightarrow> []
     | x # rest \<Rightarrow> NaN # map2 (\<lambda>prev cur. fsub (fdiv cur prev) (Fin 1)) xs rest)"

text \<open>\<open>cummax\<close>: the running maximum; a NaN entry stays NaN and is skipped.\<close>

fun cummax_from :: "fval option \<Rightarrow> series \<Rightarrow> series" where
  "cummax_from m [] = []"
| "cummax_from m (x # xs) =
    (if x = NaN then NaN # cummax_from m xs
     else
      let m' = (case m of None \<Rightarrow> x | Some y \<Rightarrow> (if flt y x then x else y))
      in m' # cummax_from (Some m') xs)"

definition cummax :: "series \<Rightarrow> series" where
  "cummax xs = cummax_from None xs"

text \<open>
  A \<open>DataFrame\<close>: the index and the columns in order, each column as long as the index.
  \<open>df.empty\<close> holds when an axis has length zero; \<open>df[name]\<close> raises \<open>KeyError\<close> on a
  missing column; \<open>.iloc[-1]\<close> raises \<open>IndexError\<close> on an empty column.
\<close>

record DataFrame =
  df_index :: "datetime list"
  df_columns :: "(string \<times> series) list"

definition df_empty :: "DataFrame \<Rightarrow> bool" where
  "df_empty df \<longleftrightarrow> df_index df = [] \<or> df_columns df = []"

definition df_len :: "DataFrame \<Rightarrow> nat" where
  "df_len df = length (df_index df)"

definition has_column :: "DataFrame \<Rightarrow> string \<Rightarrow> bool" where
  "has_column df name \<longleftrightarrow> map_of (df_columns df) name \<noteq> None"

definition column :: "DataFrame \<Rightarrow> string \<Rightarrow> py_error + series" where
  "column df name = (case map_of (df_columns df) name of None \<Rightarrow> Inl KeyError | Some c \<Rightarrow> Inr c)"

definition set_column :: "DataFrame \<Rightarrow> string \<Rightarrow> series \<Rightarrow> DataFrame" where
  "set_column df name c = df\<lparr>df_columns := AList.update name c (df_columns df)\<rparr>"

definition iloc_last :: "series \<Rightarrow> py_error + fval" where
  "iloc_last c = (case c of [] \<Rightarrow> Inl IndexError | _ \<Rightarrow> Inr (last c))"

section \<open>backtest/performance\_analyzer.py\<close>

record PerformanceAnalyzer =
  risk_free_rate :: real

definition calculate_total_return :: "DataFrame \<Rightarrow> real \<Rightarrow> py_error + fval" where
  "calculate_total_return df capital =
    (if df_empty df then Inr (Fin 0)
     else case column df ''total_value'' of
       Inl err \<Rightarrow> Inl err
     | Inr c \<Rightarrow>
        (case iloc_last c of
           Inl err \<Rightarrow> Inl err
         | Inr final_value \<Rightarrow> Inr (fdiv (fsub final_value (Fin capital)) (Fin capital))))"

definition calculate_annualized_return :: "DataFrame \<Rightarrow> py_error + fval" where
  "calculate_annualized_return df =
    (if df_empty df \<or> df_len df < 2 then Inr (Fin 0)
     else case column df ''cumulative_return'' of
       Inl err \<Rightarrow> Inl err
     | Inr c \<Rightarrow>
        (case iloc_last c of
           Inl err \<Rightarrow> Inl err
         | Inr total_return \<Rightarrow>
            let trading_days = df_len df;
                years = real trading_days / 252
            in if years \<le> 0 then Inr (Fin 0)
               else Inr (fsub (fpow (fadd (Fin 1) total_return) (1 / years)) (Fin 1))))"

definition calculate_volatility :: "DataFrame \<Rightarrow> fval" where
  "calculate_volatility df =
    (if df_empty df then Fin 0
     else case map_of (df_columns df) ''daily_return'' of
       None \<Rightarrow> Fin 0
     | Some c \<Rightarrow> fmul (series_std c) (Fin (sqrt 252)))"

definition calculate_sharpe_ratio :: "PerformanceAnalyzer \<Rightarrow> DataFrame \<Rightarrow> py_error + fval" where
  "calculate_sharpe_ratio pa df =
    (if df_empty df \<or> \<not> has_column df ''daily_return'' then Inr (Fin 0)
     else case calculate_annualized_return df of
       Inl err \<Rightarrow> Inl err
     | Inr annualized_return \<Rightarrow>
        let volatility = calculate_volatility df
        in if feq volatility (Fin 0) then Inr (Fin 0)
           else Inr (fdiv (fsub annualized_return (Fin (risk_free_rate pa))) volatility))"

definition calculate_max_drawdown :: "DataFrame \<Rightarrow> py_error + fval" where
  "calculate_max_drawdown df =
    (if df_empty df then Inr (Fin 0)
     else case column df ''total_value'' of
       Inl err \<Rightarrow> Inl err
     | Inr c \<Rightarrow>
        let cm = cummax c;
            drawdown = map2 (\<lambda>v m. fdiv (fsub v m) m) c cm
        in Inr (series_min drawdown))"

text \<open>The negative entries of a column: \<open>c[c < 0]\<close>.\<close>

definition negative_returns :: "series \<Rightarrow> series" where
  "negative_returns c = filter (\<lambda>v. flt v (Fin 0)) c"

definition calculate_sortino_ratio :: "PerformanceAnalyzer \<Rightarrow> DataFrame \<Rightarrow> py_error + fval" where
  "calculate_sortino_ratio pa df =
    (if df_empty df then Inr (Fin 0)
     else case map_of (df_columns df) ''daily_return'' of
       None \<Rightarrow> Inr (Fin 0)
     | Some c \<Rightarrow>
        (case calculate_annualized_return df of
           Inl err \<Rightarrow> Inl err
         | Inr annualized_return \<Rightarrow>
            let neg = negative_returns c
            in if neg = [] then Inr PInf
               else
                let downside_std = fmul (series_std neg) (Fin (sqrt 252))
                in if feq downside_std (Fin 0) then Inr (Fin 0)
                   else Inr (fdiv (fsub annualized_return (Fin (risk_free_rate pa))) downside_std)))"

definition calculate_calmar_ratio :: "DataFrame \<Rightarrow> py_error + fval" where
  "calculate_calmar_ratio df =
    (if df_empty df then Inr (Fin 0)
     else case calculate_annualized_return df of
       Inl err \<Rightarrow> Inl err
     | Inr annualized_return \<Rightarrow>
        (case calculate_max_drawdown df of
           Inl err \<Rightarrow> Inl err
         | Inr md \<Rightarrow>
            let max_drawdown = fabs md
            in if feq max_drawdown (Fin 0) then Inr PInf
               else Inr (fdiv annualized_return max_drawdown)))"

text \<open>
  The dictionary returned by \<open>analyze\<close>; the empty dictionary is \<open>None\<close>. The two dates
  are kept as days instead of being formatted.
\<close>

record metrics =
  m_total_return :: fval
  m_annualized_return :: fval
  m_volatility :: fval
  m_sharpe_ratio :: fval
  m_max_drawdown :: fval
  m_win_rate :: int
  m_profit_factor :: int
  m_avg_profit :: int
  m_avg_loss :: int
  m_max_consecutive_wins :: int
  m_max_consecutive_losses :: int
  m_trading_days :: nat
  m_start_date :: "int option"
  m_end_date :: "int option"

definition analyze :: "PerformanceAnalyzer \<Rightarrow> DataFrame \<Rightarrow> real \<Rightarrow> py_error + metrics option" where
  "analyze pa daily capital =
    (if df_empty daily then Inr None
     else case map_of (df_columns daily) ''total_value'' of
       None \<Rightarrow> Inr None
     | Some tv \<Rightarrow>
        let df1 = set_column daily ''daily_return'' (pct_change tv);
            df = set_column df1 ''cumulative_return''
                   (map (\<lambda>v. fsub (fdiv v (Fin capital)) (Fin 1)) tv)
        in
         (case calculate_total_return df capital of Inl err \<Rightarrow> Inl err | Inr tr \<Rightarrow>
         (case calculate_annualized_return df of Inl err \<Rightarrow> Inl err | Inr ar \<Rightarrow>
         (case calculate_sharpe_ratio pa df of Inl err \<Rightarrow> Inl err | Inr sr \<Rightarrow>
         (case calculate_max_drawdown df of Inl err \<Rightarrow> Inl err | Inr md \<Rightarrow>
           Inr (Some \<lparr>m_total_return = tr, m_annualized_return = ar,
                      m_volatility = calculate_volatility df, m_sharpe_ratio = sr,
                      m_max_drawdown = md, m_win_rate = 0, m_profit_factor = 0,
                      m_avg_profit = 0, m_avg_loss = 0, m_max_consecutive_wins = 0,
                      m_max_consecutive_losses = 0, m_trading_days = df_len df,
                      m_start_date = (if df_len df > 0 then Some (date_of (hd (df_index df))) else None),
                      m_end_date = (if df_len df > 0 then Some (date_of (last (df_index df))) else None)\<rparr>))))))"

section \<open>backtest/backtest\_engine.py\<close>

text \<open>
  A position dictionary \<open>{'quantity', 'avg_cost', 'total_cost'}\<close> of the engine. The two
  costs are written by float operations of which one is a division, so they can hold an
  infinity or NaN; the integer \<open>0\<close> they start with is \<open>Fin 0\<close>.
\<close>

record engine_position =
  ep_quantity :: int
  ep_avg_cost :: fval
  ep_total_cost :: fval

datatype direction = DirBUY | DirSELL

text \<open>
  A trade dictionary of the engine; \<open>profit\<close> is present on a sell only. The key
  \<open>commission\<close> of a sell holds commission plus stamp duty.
\<close>

record trade =
  tr_date :: datetime
  tr_symbol :: string
  tr_direction :: direction
  tr_price :: real
  tr_quantity :: int
  tr_amount :: real
  tr_commission :: real
  tr_profit :: "fval option"
  tr_cash_after :: real

record daily_value =
  dv_date :: datetime
  dv_total_value :: real
  dv_cash :: real
  dv_position_value :: real

record BacktestEngine =
  initial_capital :: real
  commission_rate :: real
  stamp_duty_rate :: real
  slippage :: real
  cash :: real
  positions :: "(string \<times> engine_position) list"
  trades :: "trade list"
  daily_values :: "daily_value list"
  performance_analyzer :: PerformanceAnalyzer

definition reset :: "BacktestEngine \<Rightarrow> BacktestEngine" where
  "reset e = e\<lparr>cash := initial_capital e, positions := [], trades := [], daily_values := []\<rparr>"

text \<open>
  \<open>_execute_buy\<close>, on the price \<open>run_backtest\<close> passes: the \<open>close\<close> of a pandas row, a
  \<open>numpy.float64\<close>, which makes every float of the method one. Each operation rounds.
  \<open>self.cash / actual_price\<close> with the price 0 is an infinity or, with the cash 0, NaN,
  and \<open>int\<close> of it raises \<open>OverflowError\<close> or \<open>ValueError\<close> before anything is
  written. \<open>pos['total_cost'] / pos['quantity']\<close> with the quantity 0 does not raise: it
  stores NaN (or an infinity), and the method goes on to append the trade.
\<close>

definition execute_buy ::
  "BacktestEngine \<Rightarrow> Signal \<Rightarrow> real \<Rightarrow> (py_error \<times> BacktestEngine) + BacktestEngine" where
  "execute_buy e signal price =
    (let actual_price = fl (price * fl (1 + slippage e)) in
     if actual_price = 0 then Inl (if cash e = 0 then ValueError else OverflowError, e)
     else
      let max_quantity = py_int (fl (cash e / actual_price));
          min_unit = 100;
          affordable = (max_quantity div min_unit) * min_unit
      in
       if affordable < min_unit then Inr e
       else
        let qty = (case requested (sg_quantity signal) of
                     None \<Rightarrow> affordable
                   | Some n \<Rightarrow> (min affordable n div min_unit) * min_unit);
            amount = fl (to_double qty * actual_price);
            commission = max (fl (amount * commission_rate e)) 5;
            cost = fl (amount + commission)
        in
         if cost > cash e then Inr e
         else
          let symbol = sg_symbol signal;
              pos = (case map_of (positions e) symbol of
                       None \<Rightarrow> \<lparr>ep_quantity = 0, ep_avg_cost = Fin 0, ep_total_cost = Fin 0\<rparr>
                     | Some p \<Rightarrow> p);
              total1 = round_fval (fadd (ep_total_cost pos) (Fin amount));
              quantity1 = ep_quantity pos + qty;
              avg1 = round_fval (fdiv total1 (Fin (to_double quantity1)))
          in
           Inr (e\<lparr>cash := fl (cash e - cost),
                  positions :=
                    AList.update symbol
                      \<lparr>ep_quantity = quantity1, ep_avg_cost = avg1, ep_total_cost = total1\<rparr>
                      (positions e),
                  trades := trades e @
                    [\<lparr>tr_date = sg_timestamp signal, tr_symbol = symbol, tr_direction = DirBUY,
                      tr_price = actual_price, tr_quantity = qty, tr_amount = amount,
                      tr_commission = commission, tr_profit = None,
                      tr_cash_after = fl (cash e - cost)\<rparr>]\<rparr>))"

text \<open>\<open>_execute_sell\<close>, in the same arithmetic; it has no raising operation.\<close>

definition execute_sell :: "BacktestEngine \<Rightarrow> Signal \<Rightarrow> real \<Rightarrow> BacktestEngine" where
  "execute_sell e signal price =
    (let symbol = sg_symbol signal in
     case map_of (positions e) symbol of
       None \<Rightarrow> e
     | Some pos \<Rightarrow>
        if ep_quantity pos \<le> 0 then e
        else
         let qty = (case requested (sg_quantity signal) of
                      None \<Rightarrow> ep_quantity pos
                    | Some n \<Rightarrow> (min (ep_quantity pos) n div 100) * 100)
         in
          if qty \<le> 0 then e
          else
           let actual_price = fl (price * fl (1 - slippage e));
               amount = fl (to_double qty * actual_price);
               commission = max (fl (amount * commission_rate e)) 5;
               stamp_duty = fl (amount * stamp_duty_rate e);
               total_revenue = fl (fl (amount - commission) - stamp_duty);
               cost = round_fval (fmul (Fin (to_double qty)) (ep_avg_cost pos));
               profit = round_fval (fsub (Fin amount) cost);
               left = ep_quantity pos - qty;
               pos1 = (if left \<le> 0
                         then pos\<lparr>ep_quantity := 0, ep_total_cost := Fin 0, ep_avg_cost := Fin 0\<rparr>
                       else pos\<lparr>ep_quantity := left,
                                 ep_total_cost :=
                                   round_fval (fmul (Fin (to_double left)) (ep_avg_cost pos))\<rparr>)
           in
            e\<lparr>cash := fl (cash e + total_revenue),
              positions := AList.update symbol pos1 (positions e),
              trades := trades e @
                 [\<lparr>tr_date = sg_timestamp signal, tr_symbol = symbol, tr_direction = DirSELL,
                   tr_price = actual_price, tr_quantity = qty, tr_amount = amount,
                   tr_commission = fl (commission + stamp_duty), tr_profit = Some profit,
                   tr_cash_after = fl (cash e + total_revenue)\<rparr>]\<rparr>)"

text \<open>
  \<open>_process_signals\<close>: the loop over the signals, an exception of a buy ending it.
\<close>

fun process_signals ::
  "BacktestEngine \<Rightarrow> Signal list \<Rightarrow> datetime \<Rightarrow> real \<Rightarrow> (py_error \<times> BacktestEngine) + BacktestEngine" where
  "process_signals e [] current_date current_price = Inr e"
| "process_signals e (signal # signals) current_date current_price =
    (if date_of (sg_timestamp signal) \<noteq> date_of current_date
       then process_signals e signals current_date current_price
     else if sg_signal_type signal = BUY
       then (case execute_buy e signal current_price of
               Inl err \<Rightarrow> Inl err
             | Inr e' \<Rightarrow> process_signals e' signals current_date current_price)
     else if sg_signal_type signal = SELL
       then process_signals (execute_sell e signal current_price) signals current_date current_price
     else process_signals e signals current_date current_price)"

definition update_daily_value :: "BacktestEngine \<Rightarrow> datetime \<Rightarrow> real \<Rightarrow> BacktestEngine" where
  "update_daily_value e date current_price =
    (let position_value =
           foldl (\<lambda>acc (symbol, pos). fl (acc + fl (to_double (ep_quantity pos) * current_price)))
             0 (positions e);
         total_value = fl (cash e + position_value)
     in e\<lparr>daily_values := daily_values e @
            [\<lparr>dv_date = date, dv_total_value = total_value, dv_cash = cash e,
              dv_position_value = position_value\<rparr>]\<rparr>)"

text \<open>
  The two error dictionaries \<open>{'error': message}\<close> that a run can return. A message of
  the source that is not ASCII is the list of the bytes of its UTF-8 encoding; these two
  say that the data is empty and that there is no record.
\<close>

definition msg_data_empty :: string where
  "msg_data_empty = [CHR 0xE6, CHR 0x95, CHR 0xB0, CHR 0xE6, CHR 0x8D, CHR 0xAE,
                     CHR 0xE4, CHR 0xB8, CHR 0xBA, CHR 0xE7, CHR 0xA9, CHR 0xBA]"

definition msg_no_records :: string where
  "msg_no_records = [CHR 0xE6, CHR 0xB2, CHR 0xA1, CHR 0xE6, CHR 0x9C, CHR 0x89,
                     CHR 0xE4, CHR 0xBA, CHR 0xA4, CHR 0xE6, CHR 0x98, CHR 0x93,
                     CHR 0xE8, CHR 0xAE, CHR 0xB0, CHR 0xE5, CHR 0xBD, CHR 0x95]"

record backtest_result =
  r_strategy_name :: string
  r_initial_capital :: real
  r_final_value :: real
  r_trades :: "trade list"
  r_daily_values :: "daily_value list"
  r_performance :: "metrics option"

datatype run_result = ErrorDict string | ResultDict backtest_result

definition generate_result :: "BacktestEngine \<Rightarrow> string \<Rightarrow> py_error + run_result" where
  "generate_result e strategy_name =
    (if daily_values e = [] then Inr (ErrorDict msg_no_records)
     else
      let df_values =
            \<lparr>df_index = map dv_date (daily_values e),
             df_columns =
               [(''total_value'', map (\<lambda>d. Fin (dv_total_value d)) (daily_values e)),
                (''cash'', map (\<lambda>d. Fin (dv_cash d)) (daily_values e)),
                (''position_value'', map (\<lambda>d. Fin (dv_position_value d)) (daily_values e))]\<rparr>
      in case analyze (performance_analyzer e) df_values (initial_capital e) of
           Inl err \<Rightarrow> Inl err
         | Inr performance \<Rightarrow>
            Inr (ResultDict
                  \<lparr>r_strategy_name = strategy_name, r_initial_capital = initial_capital e,
                   r_final_value = dv_total_value (last (daily_values e)),
                   r_trades = trades e, r_daily_values = daily_values e,
                   r_performance = performance\<rparr>))"

text \<open>
  A row of the bar frame: its index entry and the six fields of a bar, of which the
  engine reads \<open>close\<close> only. A strategy is its name and its \<open>generate_signals\<close>.
\<close>

record bar =
  b_date :: datetime
  b_open :: real
  b_high :: real
  b_low :: real
  b_close :: real
  b_volume :: real
  b_amount :: real

record Strategy =
  st_name :: string
  st_generate_signals :: "bar list \<Rightarrow> Signal list"

text \<open>The loop of \<open>run_backtest\<close> over the rows.\<close>

fun run_bars ::
  "BacktestEngine \<Rightarrow> Signal list \<Rightarrow> bar list \<Rightarrow> (py_error \<times> BacktestEngine) + BacktestEngine" where
  "run_bars e signals [] = Inr e"
| "run_bars e signals (row # rows) =
    (case process_signals e signals (b_date row) (b_close row) of
       Inl err \<Rightarrow> Inl err
     | Inr e' \<Rightarrow> run_bars (update_daily_value e' (b_date row) (b_close row)) signals rows)"

text \<open>
  \<open>run_backtest\<close> returns its dictionary together with the state of the engine it
  leaves; \<open>if symbol:\<close> is false for \<open>None\<close> and for the empty string.
\<close>

definition run_backtest ::
  "BacktestEngine \<Rightarrow> Strategy \<Rightarrow> bar list \<Rightarrow> string option \<Rightarrow>
     (py_error \<times> BacktestEngine) + (run_result \<times> BacktestEngine)" where
  "run_backtest e0 strategy data symbol =
    (let e = reset e0 in
     if data = [] then Inr (ErrorDict msg_data_empty, e)
     else
      let generated = st_generate_signals strategy data;
          signals = (case symbol of
                       None \<Rightarrow> generated
                     | Some s \<Rightarrow> (if s = [] then generated
                                else map (\<lambda>signal. signal\<lparr>sg_symbol := s\<rparr>) generated))
      in case run_bars e signals data of
           Inl err \<Rightarrow> Inl err
         | Inr e' \<Rightarrow>
            (case generate_result e' (st_name strategy) of
               Inl err \<Rightarrow> Inl (err, e')
             | Inr r \<Rightarrow> Inr (r, e')))"

text \<open>
  \<open>run_backtest_multiple\<close>. \<open>data_dict\<close> is the dictionary of the frames by symbol. The
  signals of every frame get its symbol and are sorted by their timestamp (a stable
  sort); the common dates are the sorted intersection of the indexes, and \<open>sorted(list(None))\<close>
  raises when there is no frame. On every common date the signals with that timestamp
  are processed once for every frame, at the close of that frame (\<open>data.loc[date, 'close']\<close>,
  a number when the frame has the date once), and the daily record adds up the positions
  whose symbol has a frame with the date.
\<close>

definition close_at :: "bar list \<Rightarrow> datetime \<Rightarrow> real option" where
  "close_at data date = map_option b_close (find (\<lambda>row. b_date row = date) data)"

definition all_signals_of :: "Strategy \<Rightarrow> (string \<times> bar list) list \<Rightarrow> Signal list" where
  "all_signals_of strategy data_dict =
     sort_key sg_timestamp
       (concat (map (\<lambda>(symbol, data).
                       map (\<lambda>signal. signal\<lparr>sg_symbol := symbol\<rparr>) (st_generate_signals strategy data))
                  data_dict))"

definition common_dates_of :: "(string \<times> bar list) list \<Rightarrow> py_error + datetime list" where
  "common_dates_of data_dict =
     (case data_dict of
        [] \<Rightarrow> Inl TypeError
      | (symbol, data) # others \<Rightarrow>
          Inr (sort (remdups (filter (\<lambda>d. list_all (\<lambda>(s, other). d \<in> set (map b_date other)) others)
                                (map b_date data)))))"

text \<open>The inner loop over the frames on one date.\<close>

fun process_frames ::
  "BacktestEngine \<Rightarrow> Signal list \<Rightarrow> datetime \<Rightarrow> (string \<times> bar list) list \<Rightarrow>
     (py_error \<times> BacktestEngine) + BacktestEngine" where
  "process_frames e current_signals date [] = Inr e"
| "process_frames e current_signals date ((symbol, data) # frames) =
    (case close_at data date of
       None \<Rightarrow> process_frames e current_signals date frames
     | Some current_price \<Rightarrow>
        (case process_signals e current_signals date current_price of
           Inl err \<Rightarrow> Inl err
         | Inr e' \<Rightarrow> process_frames e' current_signals date frames))"

definition daily_value_multiple ::
  "BacktestEngine \<Rightarrow> (string \<times> bar list) list \<Rightarrow> datetime \<Rightarrow> BacktestEngine" where
  "daily_value_multiple e data_dict date =
    (let total_value =
           foldl (\<lambda>acc (s, pos).
                    case map_of data_dict s of
                      None \<Rightarrow> acc
                    | Some data \<Rightarrow>
                       (case close_at data date of
                          None \<Rightarrow> acc
                        | Some price \<Rightarrow> fl (acc + fl (to_double (ep_quantity pos) * price))))
             (cash e) (positions e)
     in e\<lparr>daily_values := daily_values e @
            [\<lparr>dv_date = date, dv_total_value = total_value, dv_cash = cash e,
              dv_position_value = fl (total_value - cash e)\<rparr>]\<rparr>)"

text \<open>The outer loop over the common dates.\<close>

fun run_dates ::
  "BacktestEngine \<Rightarrow> Signal list \<Rightarrow> (string \<times> bar list) list \<Rightarrow> datetime list \<Rightarrow>
     (py_error \<times> BacktestEngine) + BacktestEngine" where
  "run_dates e all_signals data_dict [] = Inr e"
| "run_dates e all_signals data_dict (date # dates) =
    (case process_frames e (filter (\<lambda>s. sg_timestamp s = date) all_signals) date data_dict of
       Inl err \<Rightarrow> Inl err
     | Inr e' \<Rightarrow> run_dates (daily_value_multiple e' data_dict date) all_signals data_dict dates)"

definition run_backtest_multiple ::
  "BacktestEngine \<Rightarrow> Strategy \<Rightarrow> (string \<times> bar list) list \<Rightarrow>
     (py_error \<times> BacktestEngine) + (run_result \<times> BacktestEngine)" where
  "run_backtest_multiple e0 strategy data_dict =
    (let e = reset e0;
         all_signals = all_signals_of strategy data_dict
     in case common_dates_of data_dict of
          Inl err \<Rightarrow> Inl (err, e)
        | Inr common_dates \<Rightarrow>
           (case run_dates e all_signals data_dict common_dates of
              Inl err \<Rightarrow> Inl err
            | Inr e' \<Rightarrow>
               (case generate_result e' (st_name strategy) of
                  Inl err \<Rightarrow> Inl (err, e')
                | Inr r \<Rightarrow> Inr (r, e'))))"

section \<open>trading/order/order.py\<close>

datatype OrderStatus = PENDING | SUBMITTED | PARTIAL_FILLED | FILLED | CANCELLED | REJECTED

datatype OrderType = MARKET | LIMIT | STOP | STOP_LIMIT

text \<open>\<open>OrderDirection.BUY\<close> and \<open>OrderDirection.SELL\<close>.\<close>

datatype OrderDirection = OrderBUY | OrderSELL

text \<open>
  The dataclass \<open>Order\<close> after \<open>__post_init__\<close> (the identifier and the two times are
  set); \<open>metadata\<close> is left out. An order is a mutable object that the caller, the order
  manager and the broker share, so orders live in a store and are passed by address.
  \<open>datetime.now()\<close> is an argument \<open>now\<close> of every function that reads the clock.
\<close>

record Order =
  o_symbol :: string
  o_direction :: OrderDirection
  o_quantity :: int
  o_order_type :: OrderType
  o_price :: "real option"
  o_stop_price :: "real option"
  o_status :: OrderStatus
  o_filled_quantity :: int
  o_filled_price :: real
  o_commission :: real
  o_order_id :: string
  o_strategy_id :: "string option"
  o_create_time :: datetime
  o_update_time :: datetime
  o_message :: string

definition is_active :: "Order \<Rightarrow> bool" where
  "is_active ord \<longleftrightarrow> o_status ord \<in> set [PENDING, SUBMITTED, PARTIAL_FILLED]"

definition is_completed :: "Order \<Rightarrow> bool" where
  "is_completed ord \<longleftrightarrow> o_status ord = FILLED"

definition update_fill :: "Order \<Rightarrow> int \<Rightarrow> real \<Rightarrow> real \<Rightarrow> datetime \<Rightarrow> Order" where
  "update_fill ord filled_quantity filled_price commission now =
    (let fq = o_filled_quantity ord + filled_quantity;
         fp = (if fq > 0
                 then (o_filled_price ord * real_of_int (fq - filled_quantity)
                        + filled_price * real_of_int filled_quantity) / real_of_int fq
               else 0);
         ord1 = ord\<lparr>o_filled_quantity := fq, o_filled_price := fp,
                      o_commission := o_commission ord + commission, o_update_time := now\<rparr>
     in if fq \<ge> o_quantity ord then ord1\<lparr>o_status := FILLED\<rparr>
        else if fq > 0 then ord1\<lparr>o_status := PARTIAL_FILLED\<rparr>
        else ord1)"

definition cancel :: "Order \<Rightarrow> string \<Rightarrow> datetime \<Rightarrow> Order" where
  "cancel ord reason now =
    (if is_active ord
       then ord\<lparr>o_status := CANCELLED, o_message := reason, o_update_time := now\<rparr>
     else ord)"

definition reject :: "Order \<Rightarrow> string \<Rightarrow> datetime \<Rightarrow> Order" where
  "reject ord reason now = ord\<lparr>o_status := REJECTED, o_message := reason, o_update_time := now\<rparr>"

text \<open>The store of the order objects: the object at each address, and the next free address.\<close>

record store =
  objs :: "nat \<Rightarrow> Order"
  next_ref :: nat

definition alloc :: "store \<Rightarrow> Order \<Rightarrow> nat \<times> store" where
  "alloc st ord = (next_ref st, st\<lparr>objs := (objs st)(next_ref st := ord), next_ref := Suc (next_ref st)\<rparr>)"

definition put :: "store \<Rightarrow> nat \<Rightarrow> Order \<Rightarrow> store" where
  "put st r ord = st\<lparr>objs := (objs st)(r := ord)\<rparr>"

section \<open>trading/order/order\_manager.py\<close>

record OrderManager =
  om_orders :: "(string \<times> nat) list"
  pending_orders :: "string list"
  active_orders :: "string list"
  completed_orders :: "string list"

text \<open>
  \<open>create_order\<close>; \<open>stamp\<close> is the clock reading formatted by \<open>_generate_order_id\<close>.
\<close>

definition direction_value :: "OrderDirection \<Rightarrow> string" where
  "direction_value d = (case d of OrderBUY \<Rightarrow> ''buy'' | OrderSELL \<Rightarrow> ''sell'')"

definition create_order ::
  "store \<Rightarrow> OrderManager \<Rightarrow> string \<Rightarrow> OrderDirection \<Rightarrow> int \<Rightarrow> OrderType \<Rightarrow> real option \<Rightarrow>
     real option \<Rightarrow> string option \<Rightarrow> datetime \<Rightarrow> string \<Rightarrow> nat \<times> store \<times> OrderManager" where
  "create_order st om symbol dir qty order_type price stop_price strategy_id now stamp =
    (let oid = symbol @ ''_'' @ direction_value dir @ ''_'' @ stamp;
         ord = \<lparr>o_symbol = symbol, o_direction = dir, o_quantity = qty, o_order_type = order_type,
                o_price = price, o_stop_price = stop_price, o_status = PENDING,
                o_filled_quantity = 0, o_filled_price = 0, o_commission = 0, o_order_id = oid,
                o_strategy_id = strategy_id, o_create_time = now, o_update_time = now,
                o_message = []\<rparr>;
         (r, st') = alloc st ord
     in (r, st', om\<lparr>om_orders := AList.update oid r (om_orders om),
                    pending_orders := pending_orders om @ [oid]\<rparr>))"

text \<open>\<open>xs.remove(x)\<close> guarded by \<open>x in xs\<close> deletes the first occurrence.\<close>

definition submit_order :: "store \<Rightarrow> OrderManager \<Rightarrow> string \<Rightarrow> datetime \<Rightarrow> bool \<times> store \<times> OrderManager" where
  "submit_order st om order_id now =
    (case map_of (om_orders om) order_id of
       None \<Rightarrow> (False, st, om)
     | Some r \<Rightarrow>
        if o_status (objs st r) = PENDING
          then (True,
                put st r ((objs st r)\<lparr>o_status := SUBMITTED, o_update_time := now\<rparr>),
                om\<lparr>pending_orders := remove1 order_id (pending_orders om),
                   active_orders := active_orders om @ [order_id]\<rparr>)
        else (False, st, om))"

definition fill_order ::
  "store \<Rightarrow> OrderManager \<Rightarrow> string \<Rightarrow> int \<Rightarrow> real \<Rightarrow> real \<Rightarrow> datetime \<Rightarrow> bool \<times> store \<times> OrderManager" where
  "fill_order st om order_id filled_quantity filled_price commission now =
    (case map_of (om_orders om) order_id of
       None \<Rightarrow> (False, st, om)
     | Some r \<Rightarrow>
        if is_active (objs st r)
          then
           let ord = update_fill (objs st r) filled_quantity filled_price commission now
           in (True, put st r ord,
               if is_completed ord
                 then om\<lparr>active_orders := remove1 order_id (active_orders om),
                         completed_orders := completed_orders om @ [order_id]\<rparr>
               else om)
        else (False, st, om))"

definition cancel_order :: "store \<Rightarrow> OrderManager \<Rightarrow> string \<Rightarrow> string \<Rightarrow> datetime \<Rightarrow> bool \<times> store \<times> OrderManager" where
  "cancel_order st om order_id reason now =
    (case map_of (om_orders om) order_id of
       None \<Rightarrow> (False, st, om)
     | Some r \<Rightarrow>
        if is_active (objs st r)
          then (True, put st r (cancel (objs st r) reason now),
                om\<lparr>pending_orders := remove1 order_id (pending_orders om),
                   active_orders := remove1 order_id (active_orders om),
                   completed_orders := completed_orders om @ [order_id]\<rparr>)
        else (False, st, om))"

definition reject_order :: "store \<Rightarrow> OrderManager \<Rightarrow> string \<Rightarrow> string \<Rightarrow> datetime \<Rightarrow> bool \<times> store \<times> OrderManager" where
  "reject_order st om order_id reason now =
    (case map_of (om_orders om) order_id of
       None \<Rightarrow> (False, st, om)
     | Some r \<Rightarrow>
        if o_status (objs st r) = PENDING
          then (True, put st r (reject (objs st r) reason now),
                om\<lparr>pending_orders := remove1 order_id (pending_orders om),
                   completed_orders := completed_orders om @ [order_id]\<rparr>)
        else (False, st, om))"

section \<open>trading/broker/broker\_interface.py\<close>

text \<open>
  A position dictionary \<open>{'quantity', 'avg_cost', 'total_cost'}\<close> of the simulated broker
  and of the position manager; the broker adds \<open>current_price\<close> to it in
  \<open>update_position_price\<close>.
\<close>

record position =
  quantity :: int
  avg_cost :: real
  total_cost :: real

record broker_position = position +
  bp_current_price :: "real option"

record broker_trade =
  bt_order_id :: string
  bt_symbol :: string
  bt_direction :: direction
  bt_price :: real
  bt_quantity :: int
  bt_amount :: real
  bt_commission :: real
  bt_profit :: "real option"
  bt_timestamp :: datetime

record SimulatedBroker =
  connected :: bool
  br_initial_capital :: real
  br_cash :: real
  br_positions :: "(string \<times> broker_position) list"
  br_orders :: "(string \<times> nat) list"
  br_trades :: "broker_trade list"
  br_commission_rate :: real
  br_stamp_duty_rate :: real
  br_slippage :: real

definition msg_user_cancel :: string where
  "msg_user_cancel = [CHR 0xE7, CHR 0x94, CHR 0xA8, CHR 0xE6, CHR 0x88, CHR 0xB7,
                      CHR 0xE5, CHR 0x8F, CHR 0x96, CHR 0xE6, CHR 0xB6, CHR 0x88]"

definition msg_insufficient_funds :: string where
  "msg_insufficient_funds = [CHR 0xE8, CHR 0xB5, CHR 0x84, CHR 0xE9, CHR 0x87, CHR 0x91,
                             CHR 0xE4, CHR 0xB8, CHR 0x8D, CHR 0xE8, CHR 0xB6, CHR 0xB3]"

definition msg_insufficient_position :: string where
  "msg_insufficient_position = [CHR 0xE6, CHR 0x8C, CHR 0x81, CHR 0xE4, CHR 0xBB, CHR 0x93,
                                CHR 0xE4, CHR 0xB8, CHR 0x8D, CHR 0xE8, CHR 0xB6, CHR 0xB3]"

definition connect :: "SimulatedBroker \<Rightarrow> bool \<times> SimulatedBroker" where
  "connect b = (True, b\<lparr>connected := True\<rparr>)"

definition broker_submit_order :: "store \<Rightarrow> SimulatedBroker \<Rightarrow> nat \<Rightarrow> bool \<times> store \<times> SimulatedBroker" where
  "broker_submit_order st b r =
    (if \<not> connected b then (False, st, b)
     else (True, put st r ((objs st r)\<lparr>o_status := SUBMITTED\<rparr>),
           b\<lparr>br_orders := AList.update (o_order_id (objs st r)) r (br_orders b)\<rparr>))"

definition broker_cancel_order ::
  "store \<Rightarrow> SimulatedBroker \<Rightarrow> string \<Rightarrow> datetime \<Rightarrow> bool \<times> store \<times> SimulatedBroker" where
  "broker_cancel_order st b order_id now =
    (case map_of (br_orders b) order_id of
       None \<Rightarrow> (False, st, b)
     | Some r \<Rightarrow>
        if is_active (objs st r) then (True, put st r (cancel (objs st r) msg_user_cancel now), b)
        else (False, st, b))"

text \<open>
  The first step of \<open>_execute_buy\<close> and of \<open>_execute_sell\<close>, the execution price: a
  market order takes the current price with slippage; a limit order whose price is on the
  wrong side of the current price returns \<open>False\<close> (\<open>None\<close> here), and one without a
  price compares \<open>None\<close> with a float, which raises; every other type returns \<open>False\<close>.
\<close>

definition buy_execution_price :: "SimulatedBroker \<Rightarrow> Order \<Rightarrow> real \<Rightarrow> py_error + real option" where
  "buy_execution_price b ord current_price =
    (if o_order_type ord = MARKET then Inr (Some (current_price * (1 + br_slippage b)))
     else if o_order_type ord = LIMIT then
       (case o_price ord of
          None \<Rightarrow> Inl TypeError
        | Some p \<Rightarrow> (if p < current_price then Inr None else Inr (Some p)))
     else Inr None)"

definition sell_execution_price :: "SimulatedBroker \<Rightarrow> Order \<Rightarrow> real \<Rightarrow> py_error + real option" where
  "sell_execution_price b ord current_price =
    (if o_order_type ord = MARKET then Inr (Some (current_price * (1 - br_slippage b)))
     else if o_order_type ord = LIMIT then
       (case o_price ord of
          None \<Rightarrow> Inl TypeError
        | Some p \<Rightarrow> (if p > current_price then Inr None else Inr (Some p)))
     else Inr None)"

definition broker_execute_buy ::
  "store \<Rightarrow> SimulatedBroker \<Rightarrow> nat \<Rightarrow> real \<Rightarrow> datetime \<Rightarrow>
     (py_error \<times> store \<times> SimulatedBroker) + (bool \<times> store \<times> SimulatedBroker)" where
  "broker_execute_buy st b r current_price now =
    (let ord = objs st r in
     case buy_execution_price b ord current_price of
       Inl err \<Rightarrow> Inl (err, st, b)
     | Inr None \<Rightarrow> Inr (False, st, b)
     | Inr (Some price) \<Rightarrow>
        let qty = o_quantity ord;
            amount = real_of_int qty * price;
            commission = max (amount * br_commission_rate b) 5;
            cost = amount + commission
        in
         if cost > br_cash b then Inr (False, put st r (reject ord msg_insufficient_funds now), b)
         else
          let symbol = o_symbol ord;
              pos = (case map_of (br_positions b) symbol of
                       None \<Rightarrow> \<lparr>quantity = 0, avg_cost = 0, total_cost = 0, bp_current_price = None\<rparr>
                     | Some p \<Rightarrow> p);
              pos1 = pos\<lparr>total_cost := total_cost pos + amount, quantity := quantity pos + qty\<rparr>;
              b1 = b\<lparr>br_cash := br_cash b - cost,
                     br_positions := AList.update symbol pos1 (br_positions b)\<rparr>
          in
           if quantity pos1 = 0 then Inl (ZeroDivisionError, st, b1)
           else
            Inr (True, put st r (update_fill ord qty price commission now),
                 b1\<lparr>br_positions :=
                      AList.update symbol
                        (pos1\<lparr>avg_cost := total_cost pos1 / real_of_int (quantity pos1)\<rparr>)
                        (br_positions b),
                    br_trades := br_trades b @
                      [\<lparr>bt_order_id = o_order_id ord, bt_symbol = symbol, bt_direction = DirBUY,
                        bt_price = price, bt_quantity = qty, bt_amount = amount,
                        bt_commission = commission, bt_profit = None, bt_timestamp = now\<rparr>]\<rparr>))"

definition broker_execute_sell ::
  "store \<Rightarrow> SimulatedBroker \<Rightarrow> nat \<Rightarrow> real \<Rightarrow> datetime \<Rightarrow>
     (py_error \<times> store \<times> SimulatedBroker) + (bool \<times> store \<times> SimulatedBroker)" where
  "broker_execute_sell st b r current_price now =
    (let ord = objs st r; symbol = o_symbol ord in
     case map_of (br_positions b) symbol of
       None \<Rightarrow> Inr (False, put st r (reject ord msg_insufficient_position now), b)
     | Some pos \<Rightarrow>
        if quantity pos < o_quantity ord
          then Inr (False, put st r (reject ord msg_insufficient_position now), b)
        else
         (case sell_execution_price b ord current_price of
            Inl err \<Rightarrow> Inl (err, st, b)
          | Inr None \<Rightarrow> Inr (False, st, b)
          | Inr (Some price) \<Rightarrow>
             let qty = o_quantity ord;
                 amount = real_of_int qty * price;
                 commission = max (amount * br_commission_rate b) 5;
                 stamp_duty = amount * br_stamp_duty_rate b;
                 total_revenue = amount - commission - stamp_duty;
                 cost = real_of_int qty * avg_cost pos;
                 profit = amount - cost;
                 left = quantity pos - qty;
                 pos1 = (if left \<le> 0 then pos\<lparr>quantity := 0, total_cost := 0, avg_cost := 0\<rparr>
                         else pos\<lparr>quantity := left, total_cost := real_of_int left * avg_cost pos\<rparr>)
             in Inr (True, put st r (update_fill ord qty price (commission + stamp_duty) now),
                     b\<lparr>br_cash := br_cash b + total_revenue,
                       br_positions := AList.update symbol pos1 (br_positions b),
                       br_trades := br_trades b @
                         [\<lparr>bt_order_id = o_order_id ord, bt_symbol = symbol, bt_direction = DirSELL,
                           bt_price = price, bt_quantity = qty, bt_amount = amount,
                           bt_commission = commission + stamp_duty, bt_profit = Some profit,
                           bt_timestamp = now\<rparr>]\<rparr>)))"

definition execute_order ::
  "store \<Rightarrow> SimulatedBroker \<Rightarrow> nat \<Rightarrow> real \<Rightarrow> datetime \<Rightarrow>
     (py_error \<times> store \<times> SimulatedBroker) + (bool \<times> store \<times> SimulatedBroker)" where
  "execute_order st b r current_price now =
    (if \<not> connected b then Inr (False, st, b)
     else if o_direction (objs st r) = OrderBUY then broker_execute_buy st b r current_price now
     else broker_execute_sell st b r current_price now)"

section \<open>risk/position\_manager.py\<close>

text \<open>
  A position of the position manager always has the four keys \<open>quantity\<close>, \<open>avg_cost\<close>,
  \<open>total_cost\<close> and \<open>current_price\<close>.
\<close>

record pm_position = position +
  current_price :: real

record PositionManager =
  pm_initial_capital :: real
  pm_cash :: real
  pm_positions :: "(string \<times> pm_position) list"

definition update_position ::
  "PositionManager \<Rightarrow> string \<Rightarrow> int \<Rightarrow> real \<Rightarrow> bool \<Rightarrow> PositionManager" where
  "update_position pm symbol qty price is_buy =
    (let pos = (case map_of (pm_positions pm) symbol of
                  None \<Rightarrow> \<lparr>quantity = 0, avg_cost = 0, total_cost = 0, current_price = price\<rparr>
                | Some p \<Rightarrow> p)
     in
      if is_buy then
        let amount = real_of_int qty * price;
            pos1 = pos\<lparr>total_cost := total_cost pos + amount, quantity := quantity pos + qty\<rparr>;
            pos2 = pos1\<lparr>avg_cost := (if quantity pos1 > 0
                                        then total_cost pos1 / real_of_int (quantity pos1) else 0)\<rparr>
        in pm\<lparr>pm_cash := pm_cash pm - amount,
               pm_positions := AList.update symbol (pos2\<lparr>current_price := price\<rparr>) (pm_positions pm)\<rparr>
      else if quantity pos \<ge> qty then
        let pos1 = pos\<lparr>quantity := quantity pos - qty\<rparr>;
            revenue = real_of_int qty * price;
            pos2 = (if quantity pos1 \<le> 0
                      then pos1\<lparr>quantity := 0, total_cost := 0, avg_cost := 0\<rparr> else pos1)
        in pm\<lparr>pm_cash := pm_cash pm + revenue,
               pm_positions := AList.update symbol (pos2\<lparr>current_price := price\<rparr>) (pm_positions pm)\<rparr>
      else pm\<lparr>pm_positions := AList.update symbol (pos\<lparr>current_price := price\<rparr>) (pm_positions pm)\<rparr>)"

definition clear_position :: "PositionManager \<Rightarrow> string \<Rightarrow> real \<Rightarrow> real \<times> PositionManager" where
  "clear_position pm symbol price =
    (case map_of (pm_positions pm) symbol of
       None \<Rightarrow> (0, pm)
     | Some pos \<Rightarrow>
        if quantity pos \<le> 0 then (0, pm)
        else
         let revenue = real_of_int (quantity pos) * price
         in (revenue,
             pm\<lparr>pm_cash := pm_cash pm + revenue,
                pm_positions :=
                  AList.update symbol
                    \<lparr>quantity = 0, avg_cost = 0, total_cost = 0, current_price = price\<rparr>
                    (pm_positions pm)\<rparr>))"

section \<open>Predicates of the properties\<close>

text \<open>
  The state an engine is left in by a run: the one it returns with, or the one an
  exception leaves behind.
\<close>

definition final_state ::
  "(py_error \<times> BacktestEngine) + (run_result \<times> BacktestEngine) \<Rightarrow> BacktestEngine" where
  "final_state outcome = (case outcome of Inl (err, e) \<Rightarrow> e | Inr (r, e) \<Rightarrow> e)"

text \<open>
  What the recorded trades took from the cash (amount plus commission of every buy) and
  gave to it (amount minus the fees of every sell; the \<open>commission\<close> key of a sell holds
  commission plus stamp duty), as sums of the recorded doubles without rounding.
\<close>

definition buy_outflow :: "trade list \<Rightarrow> real" where
  "buy_outflow ts =
     sum_list (map (\<lambda>t. tr_amount t + tr_commission t) (filter (\<lambda>t. tr_direction t = DirBUY) ts))"

definition sell_inflow :: "trade list \<Rightarrow> real" where
  "sell_inflow ts =
     sum_list (map (\<lambda>t. tr_amount t - tr_commission t) (filter (\<lambda>t. tr_direction t = DirSELL) ts))"

text \<open>
  The quantities \<open>_execute_buy\<close> and \<open>_execute_sell\<close> compute on their way: the buying
  and the selling price, the affordable quantity in whole lots, the quantity bought
  (clamped to the requested one and rounded again), the position a buy adds to, the
  quantity sold, and the two fees of an amount.
\<close>

definition buy_price :: "BacktestEngine \<Rightarrow> real \<Rightarrow> real" where
  "buy_price e price = fl (price * fl (1 + slippage e))"

definition sell_price :: "BacktestEngine \<Rightarrow> real \<Rightarrow> real" where
  "sell_price e price = fl (price * fl (1 - slippage e))"

definition affordable_quantity :: "BacktestEngine \<Rightarrow> real \<Rightarrow> int" where
  "affordable_quantity e price = (py_int (fl (cash e / buy_price e price)) div 100) * 100"

definition buy_quantity :: "BacktestEngine \<Rightarrow> Signal \<Rightarrow> real \<Rightarrow> int" where
  "buy_quantity e signal price =
     (case requested (sg_quantity signal) of
        None \<Rightarrow> affordable_quantity e price
      | Some n \<Rightarrow> (min (affordable_quantity e price) n div 100) * 100)"

definition held :: "BacktestEngine \<Rightarrow> string \<Rightarrow> engine_position" where
  "held e symbol =
     (case map_of (positions e) symbol of
        None \<Rightarrow> \<lparr>ep_quantity = 0, ep_avg_cost = Fin 0, ep_total_cost = Fin 0\<rparr>
      | Some p \<Rightarrow> p)"

definition sell_quantity :: "engine_position \<Rightarrow> Signal \<Rightarrow> int" where
  "sell_quantity pos signal =
     (case requested (sg_quantity signal) of
        None \<Rightarrow> ep_quantity pos
      | Some n \<Rightarrow> (min (ep_quantity pos) n div 100) * 100)"

definition commission_of :: "BacktestEngine \<Rightarrow> real \<Rightarrow> real" where
  "commission_of e amount = max (fl (amount * commission_rate e)) 5"

definition stamp_duty_of :: "BacktestEngine \<Rightarrow> real \<Rightarrow> real" where
  "stamp_duty_of e amount = fl (amount * stamp_duty_rate e)"

text \<open>
  The cash of an engine against its recorded trades: \<open>cash - cash_start + \<Sum>buys - \<Sum>sells\<close>.
  It is not zero in general, since the cash is rounded after every trade; \<open>tolerance\<close> is
  the bound of it that the roundings of the trades add up to, \<open>2^-53\<close> times
  \<open>|cash_after| + |amount| + |commission|\<close> for a buy and
  \<open>|cash_after| + 3 |amount| + 4 commission + 2 |stamp_duty|\<close> for a sell.
\<close>

definition cash_residual :: "real \<Rightarrow> BacktestEngine \<Rightarrow> real" where
  "cash_residual c0 e = cash e - c0 + buy_outflow (trades e) - sell_inflow (trades e)"

definition rounding_slack :: "BacktestEngine \<Rightarrow> trade \<Rightarrow> real" where
  "rounding_slack e t =
     (if tr_direction t = DirBUY
        then \<bar>tr_cash_after t\<bar> + \<bar>tr_amount t\<bar> + \<bar>tr_commission t\<bar>
      else \<bar>tr_cash_after t\<bar> + 3 * \<bar>tr_amount t\<bar> + 4 * commission_of e (tr_amount t)
             + 2 * \<bar>stamp_duty_of e (tr_amount t)\<bar>)"

definition tolerance :: "BacktestEngine \<Rightarrow> trade list \<Rightarrow> real" where
  "tolerance e ts = sum_list (map (rounding_slack e) ts) / 2 ^ 53"

text \<open>
  The state after a step that may raise, and the invariant of a run of the engine
  configured as \<open>e0\<close>: the two rates are those of \<open>e0\<close>, and the cash accounts for the
  trades within the tolerance.
\<close>

definition state_after :: "(py_error \<times> BacktestEngine) + BacktestEngine \<Rightarrow> BacktestEngine" where
  "state_after outcome = (case outcome of Inl (err, e) \<Rightarrow> e | Inr e \<Rightarrow> e)"

definition accounted :: "BacktestEngine \<Rightarrow> BacktestEngine \<Rightarrow> bool" where
  "accounted e0 e \<longleftrightarrow>
     commission_rate e = commission_rate e0 \<and> stamp_duty_rate e = stamp_duty_rate e0 \<and>
     \<bar>cash_residual (initial_capital e0) e\<bar> \<le> tolerance e0 (trades e)"

text \<open>
  A frame as \<open>analyze\<close> builds it: the columns \<open>total_value\<close>, \<open>daily_return\<close> and
  \<open>cumulative_return\<close> are present and as long as the index. The deviation of the
  negative daily returns, annualised, as \<open>calculate_sortino_ratio\<close> computes it, and the
  absence of a negative daily return.
\<close>

definition complete_frame :: "DataFrame \<Rightarrow> bool" where
  "complete_frame df \<longleftrightarrow>
     list_all (\<lambda>name. case map_of (df_columns df) name of
                        None \<Rightarrow> False
                      | Some c \<Rightarrow> length c = length (df_index df))
       [''total_value'', ''daily_return'', ''cumulative_return'']"

definition downside_std :: "DataFrame \<Rightarrow> fval" where
  "downside_std df =
     (case map_of (df_columns df) ''daily_return'' of
        None \<Rightarrow> NaN
      | Some c \<Rightarrow> fmul (series_std (negative_returns c)) (Fin (sqrt 252)))"

definition no_negative_returns :: "DataFrame \<Rightarrow> bool" where
  "no_negative_returns df \<longleftrightarrow>
     (case map_of (df_columns df) ''daily_return'' of
        None \<Rightarrow> True
      | Some c \<Rightarrow> negative_returns c = [])"

section \<open>Example data\<close>

text \<open>
  An engine with the capital 10,000 and the default rates 0.0003, 0.001 and 0.001 (the
  doubles nearest to them), signals on the symbol 600000 dated day 1, and the engine after
  it bought 900 shares at the close 10: at the price \<open>10.009999999999998\<close>, for the
  amount \<open>9008.999999999998\<close>, which leaves the cash \<open>986.0000000000018\<close>.
\<close>

definition ex_engine :: BacktestEngine where
  "ex_engine =
     \<lparr>initial_capital = 10000, commission_rate = fl (3 / 10000), stamp_duty_rate = fl (1 / 1000),
      slippage = fl (1 / 1000), cash = 10000, positions = [], trades = [], daily_values = [],
      performance_analyzer = \<lparr>risk_free_rate = 3 / 100\<rparr>\<rparr>"

definition ex_signal :: "SignalType \<Rightarrow> int option \<Rightarrow> Signal" where
  "ex_signal ty q =
     \<lparr>sg_symbol = ''600000'', sg_signal_type = ty, sg_price = 10, sg_timestamp = (1, 0),
      sg_strength = 1, sg_quantity = q\<rparr>"

definition ex_price :: real where
  "ex_price = 1408782258436833 / 140737488355328"

definition ex_amount :: real where
  "ex_amount = 4952750127316991 / 549755813888"

definition ex_cash :: real where
  "ex_cash = 542059232493569 / 549755813888"

definition ex_bought :: BacktestEngine where
  "ex_bought =
     ex_engine\<lparr>cash := ex_cash,
       positions := [(''600000'', \<lparr>ep_quantity = 900, ep_avg_cost = Fin ex_price,
                                   ep_total_cost = Fin ex_amount\<rparr>)],
       trades := [\<lparr>tr_date = (1, 0), tr_symbol = ''600000'', tr_direction = DirBUY,
                   tr_price = ex_price, tr_quantity = 900, tr_amount = ex_amount,
                   tr_commission = 5, tr_profit = None, tr_cash_after = ex_cash\<rparr>]\<rparr>"

text \<open>
  The engine after it bought 100 shares at the close 10 on a request for 100, for the
  amount \<open>1000.9999999999998\<close>.
\<close>

definition ex_held100 :: BacktestEngine where
  "ex_held100 =
     ex_engine\<lparr>cash := 8994,
       positions := [(''600000'', \<lparr>ep_quantity = 100, ep_avg_cost = Fin ex_price,
                                   ep_total_cost = Fin (4402444557615103 / 4398046511104)\<rparr>)],
       trades := [\<lparr>tr_date = (1, 0), tr_symbol = ''600000'', tr_direction = DirBUY,
                   tr_price = ex_price, tr_quantity = 100,
                   tr_amount = 4402444557615103 / 4398046511104, tr_commission = 5,
                   tr_profit = None, tr_cash_after = 8994\<rparr>]\<rparr>"

text \<open>
  A strategy that emits one BUY of 50 shares on day 1, and a bar of day 1 with the
  close 10; the engine at the end of its run on that bar, which holds no share of the
  symbol at the average cost NaN.
\<close>

definition ex_strategy :: Strategy where
  "ex_strategy =
     \<lparr>st_name = ''buy_50'', st_generate_signals = (\<lambda>data. [ex_signal BUY (Some 50)])\<rparr>"

definition ex_bar :: bar where
  "ex_bar =
     \<lparr>b_date = (1, 0), b_open = 10, b_high = 10, b_low = 10, b_close = 10, b_volume = 100000,
      b_amount = 1000000\<rparr>"

definition ex_run_state :: BacktestEngine where
  "ex_run_state =
     ex_engine\<lparr>cash := 9995,
       positions := [(''600000'', \<lparr>ep_quantity = 0, ep_avg_cost = NaN, ep_total_cost = Fin 0\<rparr>)],
       trades := [\<lparr>tr_date = (1, 0), tr_symbol = ''600000'', tr_direction = DirBUY,
                   tr_price = ex_price, tr_quantity = 0, tr_amount = 0, tr_commission = 5,
                   tr_profit = None, tr_cash_after = 9995\<rparr>],
       daily_values :=
         [\<lparr>dv_date = (1, 0), dv_total_value = 9995, dv_cash = 9995, dv_position_value = 0\<rparr>]\<rparr>"

text \<open>
  A strategy that buys on day 1 and sells on day 2, two bars with the closes 20.4 and
  20.7, and the engine at the end of the run on them: it bought 400 shares for
  \<open>8168.159999999999\<close> and sold them for \<open>8271.72\<close>.
\<close>

definition ex_round_trip :: Strategy where
  "ex_round_trip =
     \<lparr>st_name = ''round_trip'',
      st_generate_signals =
        (\<lambda>data. [ex_signal BUY None, (ex_signal SELL None)\<lparr>sg_timestamp := (2, 0)\<rparr>])\<rparr>"

definition ex_bars :: "bar list" where
  "ex_bars =
     [\<lparr>b_date = (1, 0), b_open = 20, b_high = 21, b_low = 20, b_close = fl (204 / 10),
       b_volume = 100000, b_amount = 2000000\<rparr>,
      \<lparr>b_date = (2, 0), b_open = 20, b_high = 21, b_low = 20, b_close = fl (207 / 10),
       b_volume = 100000, b_amount = 2000000\<rparr>]"

definition ex_round_trip_state :: BacktestEngine where
  "ex_round_trip_state =
     ex_engine\<lparr>cash := 1386111466666627 / 137438953472,
       positions := [(''600000'', \<lparr>ep_quantity = 0, ep_avg_cost = Fin 0, ep_total_cost = Fin 0\<rparr>)],
       trades :=
         [\<lparr>tr_date = (1, 0), tr_symbol = ''600000'', tr_direction = DirBUY,
           tr_price = 5747831614422279 / 281474976710656, tr_quantity = 400,
           tr_amount = 8980986897534811 / 1099511627776, tr_commission = 5, tr_profit = None,
           tr_cash_after = 2008631822086309 / 1099511627776\<rparr>,
          \<lparr>tr_date = (2, 0), tr_symbol = ''600000'', tr_direction = DirSELL,
           tr_price = 1455176371473167 / 70368744177664, tr_quantity = 400,
           tr_amount = 4547426160853647 / 549755813888,
           tr_commission = 7471314155820695 / 562949953421312,
           tr_profit = Some (Fin (113865424172483 / 1099511627776)),
           tr_cash_after = 1386111466666627 / 137438953472\<rparr>],
       daily_values :=
         [\<lparr>dv_date = (1, 0), dv_total_value = 2745161676184617 / 274877906944,
           dv_cash = 2008631822086309 / 1099511627776,
           dv_position_value = 8972014882652159 / 1099511627776\<rparr>,
          \<lparr>dv_date = (2, 0), dv_total_value = 1386111466666627 / 137438953472,
           dv_cash = 1386111466666627 / 137438953472, dv_position_value = 0\<rparr>]\<rparr>"

text \<open>A position manager holding 100 shares of 600000 and an emptied position of 000001.\<close>

definition ex_pm :: PositionManager where
  "ex_pm =
     \<lparr>pm_initial_capital = 10000, pm_cash = 5000,
      pm_positions =
        [(''600000'', \<lparr>quantity = 100, avg_cost = 10, total_cost = 1000, current_price = 12\<rparr>),
         (''000001'', \<lparr>quantity = 0, avg_cost = 0, total_cost = 0, current_price = 8\<rparr>)]\<rparr>"

text \<open>
  The engine after it sold the 900 shares at the close 11, at the price \<open>10.989\<close> for
  the amount \<open>9890.1\<close>; a submitted market order to sell 100 shares, alone in a store; a
  connected broker that holds 100 shares and the cash 5000, and the same broker after it
  executed the order at the price 11 on day 2.
\<close>

definition ex_sold :: BacktestEngine where
  "ex_sold =
     ex_bought\<lparr>cash := 746376661047863 / 68719476736,
       positions := [(''600000'', \<lparr>ep_quantity = 0, ep_avg_cost = Fin 0, ep_total_cost = Fin 0\<rparr>)],
       trades := trades ex_bought @
         [\<lparr>tr_date = (1, 0), tr_symbol = ''600000'', tr_direction = DirSELL,
           tr_price = 3093128519073399 / 281474976710656, tr_quantity = 900,
           tr_amount = 5437139974933709 / 549755813888,
           tr_commission = 4191190550719339 / 281474976710656,
           tr_profit = Some (Fin (242194923808359 / 274877906944)),
           tr_cash_after = 746376661047863 / 68719476736\<rparr>]\<rparr>"

definition ex_order :: Order where
  "ex_order =
     \<lparr>o_symbol = ''600000'', o_direction = OrderSELL, o_quantity = 100, o_order_type = MARKET,
      o_price = None, o_stop_price = None, o_status = SUBMITTED, o_filled_quantity = 0,
      o_filled_price = 0, o_commission = 0, o_order_id = ''600000_sell_t0'',
      o_strategy_id = None, o_create_time = (1, 0), o_update_time = (1, 0), o_message = []\<rparr>"

definition ex_store :: store where
  "ex_store = \<lparr>objs = (\<lambda>r. ex_order), next_ref = 1\<rparr>"

definition ex_broker :: SimulatedBroker where
  "ex_broker =
     \<lparr>connected = True, br_initial_capital = 5000, br_cash = 5000,
      br_positions =
        [(''600000'', \<lparr>quantity = 100, avg_cost = 10, total_cost = 1000, bp_current_price = None\<rparr>)],
      br_orders = [(''600000_sell_t0'', 0)], br_trades = [],
      br_commission_rate = 3 / 10000, br_stamp_duty_rate = 1 / 1000, br_slippage = 1 / 1000\<rparr>"

definition ex_broker_sold :: SimulatedBroker where
  "ex_broker_sold =
     ex_broker\<lparr>br_cash := 60928011 / 10000,
       br_positions :=
         [(''600000'', \<lparr>quantity = 0, avg_cost = 0, total_cost = 0, bp_current_price = None\<rparr>)],
       br_trades :=
         [\<lparr>bt_order_id = ''600000_sell_t0'', bt_symbol = ''600000'', bt_direction = DirSELL,
           bt_price = 10989 / 1000, bt_quantity = 100, bt_amount = 10989 / 10,
           bt_commission = 60989 / 10000, bt_profit = Some (989 / 10), bt_timestamp = (2, 0)\<rparr>]\<rparr>"

text \<open>
  A store without orders (no address below \<open>next_ref\<close> is allocated, and what lies
  above is never read), and a simulated broker with the capital 5000 after \<open>connect\<close>.
\<close>

definition ex_empty_store :: store where
  "ex_empty_store = \<lparr>objs = (\<lambda>r. ex_order), next_ref = 0\<rparr>"

definition ex_fresh_broker :: SimulatedBroker where
  "ex_fresh_broker =
     \<lparr>connected = True, br_initial_capital = 5000, br_cash = 5000, br_positions = [],
      br_orders = [], br_trades = [], br_commission_rate = 3 / 10000,
      br_stamp_duty_rate = 1 / 1000, br_slippage = 1 / 1000\<rparr>"

text \<open>
  An order manager without orders, and three frames: one without rows, one whose value
  stays at 100, one whose value falls by a tenth each day.
\<close>

definition ex_manager :: OrderManager where
  "ex_manager = \<lparr>om_orders = [], pending_orders = [], active_orders = [], completed_orders = []\<rparr>"

definition ex_empty_frame :: DataFrame where
  "ex_empty_frame =
     \<lparr>df_index = [],
      df_columns = [(''total_value'', []), (''daily_return'', []), (''cumulative_return'', [])]\<rparr>"

definition ex_flat_frame :: DataFrame where
  "ex_flat_frame =
     \<lparr>df_index = [(1, 0), (2, 0), (3, 0)],
      df_columns = [(''total_value'', [Fin 100, Fin 100, Fin 100]),
                    (''daily_return'', [NaN, Fin 0, Fin 0]),
                    (''cumulative_return'', [Fin 0, Fin 0, Fin 0])]\<rparr>"

definition ex_falling_frame :: DataFrame where
  "ex_falling_frame =
     \<lparr>df_index = [(1, 0), (2, 0), (3, 0)],
      df_columns = [(''total_value'', [Fin 100, Fin 90, Fin 81]),
                    (''daily_return'', [NaN, Fin (- 1 / 10), Fin (- 1 / 10)]),
                    (''cumulative_return'', [Fin 0, Fin (- 1 / 10), Fin (- 19 / 100)])]\<rparr>"

section \<open>Properties of the rounding\<close>

text \<open>
  The binade of a positive number encloses it, and rounding moves a number by at most
  half a unit of its binade: by at most \<open>2^-53\<close> of the number, and of its rounding.
\<close>

lemma binade_bounds:
  assumes "0 < x"
  shows "2 powi binade x \<le> x" and "x < 2 powi (binade x + 1)"
proof -
  have "2 powi binade x \<le> x \<and> x < 2 powi (binade x + 1)"
  proof (cases "1 \<le> x")
    case True
    then have n: "0 < \<lfloor>x\<rfloor>" by linarith
    let ?b = "bitlen \<lfloor>x\<rfloor>"
    from bitlen_bounds [OF n] have lo: "2 ^ nat (?b - 1) \<le> \<lfloor>x\<rfloor>" and hi: "\<lfloor>x\<rfloor> < 2 ^ nat ?b"
      by auto
    from n have b1: "1 \<le> ?b" by (simp add: bitlen_alt_def)
    have "(2::real) powi (?b - 1) = 2 ^ nat (?b - 1)"
      using b1 by (simp add: power_int_def)
    also have "\<dots> = real_of_int (2 ^ nat (?b - 1))" by simp
    also have "\<dots> \<le> real_of_int \<lfloor>x\<rfloor>" using lo by (simp only: of_int_le_iff)
    also have "\<dots> \<le> x" by simp
    finally have 1: "2 powi (?b - 1) \<le> x" .
    from hi have "\<lfloor>x\<rfloor> + 1 \<le> 2 ^ nat ?b" by simp
    then have "real_of_int (\<lfloor>x\<rfloor> + 1) \<le> real_of_int (2 ^ nat ?b)" by (simp only: of_int_le_iff)
    moreover have "x < real_of_int (\<lfloor>x\<rfloor> + 1)" by linarith
    ultimately have "x < real_of_int (2 ^ nat ?b)" by linarith
    also have "\<dots> = 2 powi ?b" using b1 by (simp add: power_int_def)
    finally have 2: "x < 2 powi (?b - 1 + 1)" by simp
    from 1 2 True show ?thesis by (simp add: binade_def)
  next
    case False
    with assms have y: "1 < 1 / x" by simp
    let ?m = "\<lceil>1 / x\<rceil> - 1"
    from y have m: "0 < ?m" by linarith
    let ?b = "bitlen ?m"
    from bitlen_bounds [OF m] have lo: "2 ^ nat (?b - 1) \<le> ?m" and hi: "?m < 2 ^ nat ?b"
      by auto
    from m have b1: "1 \<le> ?b" by (simp add: bitlen_alt_def)
    have "real_of_int ?m < 1 / x" by linarith
    moreover have "real_of_int (2 ^ nat (?b - 1)) \<le> real_of_int ?m"
      using lo by (simp only: of_int_le_iff)
    ultimately have "real_of_int (2 ^ nat (?b - 1)) < 1 / x" by linarith
    moreover have "real_of_int (2 ^ nat (?b - 1)) = 2 ^ nat (?b - 1)" by simp
    ultimately have "(2::real) ^ nat (?b - 1) < 1 / x" by (simp only:)
    then have "x * 2 ^ nat (?b - 1) < 1" using assms by (simp add: field_simps)
    then have "x < 1 / 2 ^ nat (?b - 1)" by (simp add: field_simps)
    also have "\<dots> = 2 powi (- ?b + 1)"
      using b1 by (simp add: power_int_def nat_diff_distrib' field_simps)
    finally have 2: "x < 2 powi (- ?b + 1)" .
    from hi have "?m + 1 \<le> 2 ^ nat ?b" by simp
    then have "real_of_int (?m + 1) \<le> real_of_int (2 ^ nat ?b)" by (simp only: of_int_le_iff)
    moreover have "1 / x \<le> real_of_int (?m + 1)" by linarith
    ultimately have "1 / x \<le> real_of_int (2 ^ nat ?b)" by linarith
    moreover have "real_of_int (2 ^ nat ?b) = 2 ^ nat ?b" by simp
    ultimately have "1 / x \<le> 2 ^ nat ?b" by (simp only:)
    then have "1 \<le> x * 2 ^ nat ?b" using assms by (simp add: field_simps)
    then have "1 / 2 ^ nat ?b \<le> x" by (simp add: field_simps)
    moreover have "(2::real) powi (- ?b) = 1 / 2 ^ nat ?b"
      using b1 by (simp add: power_int_def field_simps)
    ultimately have 1: "2 powi (- ?b) \<le> x" by simp
    from 1 2 False show ?thesis by (simp add: binade_def)
  qed
  then show "2 powi binade x \<le> x" and "x < 2 powi (binade x + 1)" by auto
qed

lemma round_half_even_error: "\<bar>real_of_int (round_half_even y) - y\<bar> \<le> 1 / 2"
  unfolding round_half_even_def Let_def by (auto; linarith)

lemma round_half_even_mono_int:
  "real_of_int k \<le> y \<Longrightarrow> k \<le> round_half_even y"
  unfolding round_half_even_def Let_def by (auto simp: le_floor_iff; linarith)

lemma round_half_even_le_int:
  "y \<le> real_of_int k \<Longrightarrow> round_half_even y \<le> k"
  unfolding round_half_even_def Let_def by (auto simp: floor_le_iff; linarith)

lemma fl_zero: "fl 0 = 0"
  by (simp add: fl_def)

lemma scaled_abs:
  assumes "0 < (u::real)"
  shows "\<bar>n * u - x\<bar> = \<bar>n - x / u\<bar> * u"
proof -
  have "n * u - x = (n - x / u) * u" using assms by (simp add: field_simps)
  then show ?thesis using assms by (simp add: abs_mult)
qed

lemma fl_error_ulp:
  assumes "x \<noteq> 0"
  shows "\<bar>fl x - x\<bar> \<le> 2 powi (binade \<bar>x\<bar> - 53)"
    and "2 powi binade \<bar>x\<bar> \<le> \<bar>fl x\<bar>"
proof -
  define e where "e = binade \<bar>x\<bar>"
  define u :: real where "u = 2 powi (e - 52)"
  have u: "0 < u" by (simp add: u_def)
  from assms have lo: "2 powi e \<le> \<bar>x\<bar>" unfolding e_def by (intro binade_bounds) simp
  have fl: "fl x = of_int (round_half_even (x / u)) * u"
    using assms by (simp add: fl_def Let_def u_def e_def)
  have half: "u / 2 = 2 powi (e - 53)"
    by (simp add: u_def power_int_diff)
  have p52: "2 powi e = 2 ^ 52 * u"
    by (simp add: u_def power_int_diff)
  have "\<bar>fl x - x\<bar> = \<bar>of_int (round_half_even (x / u)) - x / u\<bar> * u"
    unfolding fl using u by (rule scaled_abs)
  also have "\<dots> \<le> (1 / 2) * u"
    using round_half_even_error [of "x / u"] u by (intro mult_right_mono) simp_all
  finally show "\<bar>fl x - x\<bar> \<le> 2 powi (e - 53)" using half by simp
  have int52: "(2::real) ^ 52 = real_of_int (2 ^ 52)" by simp
  show "2 powi e \<le> \<bar>fl x\<bar>"
  proof (cases "0 < x")
    case True
    with lo have "2 ^ 52 * u \<le> x" unfolding p52 by simp
    with u have "(2::real) ^ 52 \<le> x / u" by (simp add: pos_le_divide_eq)
    then have "real_of_int (2 ^ 52) \<le> x / u" by (simp only: int52)
    then have "2 ^ 52 \<le> round_half_even (x / u)" by (rule round_half_even_mono_int)
    then have "real_of_int (2 ^ 52) \<le> real_of_int (round_half_even (x / u))"
      by (simp only: of_int_le_iff)
    then have "real_of_int (2 ^ 52) * u \<le> real_of_int (round_half_even (x / u)) * u"
      using u by (intro mult_right_mono) simp_all
    then have "2 powi e \<le> fl x" unfolding fl p52 int52 .
    then show ?thesis by linarith
  next
    case False
    with assms have neg: "x < 0" by simp
    with lo have "x \<le> - (2 ^ 52 * u)" unfolding p52 by simp
    with u have "x / u \<le> - ((2::real) ^ 52)" by (simp add: pos_divide_le_eq)
    then have "x / u \<le> real_of_int (- (2 ^ 52))" by simp
    then have "round_half_even (x / u) \<le> - (2 ^ 52)" by (rule round_half_even_le_int)
    then have "real_of_int (round_half_even (x / u)) \<le> real_of_int (- (2 ^ 52))"
      by (simp only: of_int_le_iff)
    then have "real_of_int (round_half_even (x / u)) * u \<le> real_of_int (- (2 ^ 52)) * u"
      using u by (intro mult_right_mono) simp_all
    then have "fl x \<le> - (2 powi e)" unfolding fl p52 by simp
    moreover have "0 \<le> (2::real) powi e" by simp
    ultimately show ?thesis by linarith
  qed
qed

lemma fl_error: "\<bar>fl x - x\<bar> \<le> \<bar>x\<bar> / 2 ^ 53"
proof (cases "x = 0")
  case True
  then show ?thesis by (simp add: fl_zero)
next
  case False
  have "\<bar>fl x - x\<bar> \<le> 2 powi (binade \<bar>x\<bar> - 53)" using False by (rule fl_error_ulp)
  also have "\<dots> = 2 powi binade \<bar>x\<bar> / 2 ^ 53" by (simp add: power_int_diff)
  also have "\<dots> \<le> \<bar>x\<bar> / 2 ^ 53"
    using False by (intro divide_right_mono binade_bounds) simp_all
  finally show ?thesis .
qed

lemma fl_error_result: "\<bar>fl x - x\<bar> \<le> \<bar>fl x\<bar> / 2 ^ 53"
proof (cases "x = 0")
  case True
  then show ?thesis by (simp add: fl_zero)
next
  case False
  have "\<bar>fl x - x\<bar> \<le> 2 powi (binade \<bar>x\<bar> - 53)" using False by (rule fl_error_ulp)
  also have "\<dots> = 2 powi binade \<bar>x\<bar> / 2 ^ 53" by (simp add: power_int_diff)
  also have "\<dots> \<le> \<bar>fl x\<bar> / 2 ^ 53"
    using False by (intro divide_right_mono fl_error_ulp) simp_all
  finally show ?thesis .
qed

section \<open>Properties of the backtest engine\<close>

subsection \<open>The two executions, unfolded\<close>

lemma execute_buy_unfold:
  "execute_buy e signal price =
    (let actual_price = buy_price e price;
         qty = buy_quantity e signal price;
         amount = fl (to_double qty * actual_price);
         commission = commission_of e amount;
         cost = fl (amount + commission);
         pos = held e (sg_symbol signal);
         total1 = round_fval (fadd (ep_total_cost pos) (Fin amount));
         quantity1 = ep_quantity pos + qty
     in
      if actual_price = 0 then Inl (if cash e = 0 then ValueError else OverflowError, e)
      else if affordable_quantity e price < 100 then Inr e
      else if cost > cash e then Inr e
      else Inr (e\<lparr>cash := fl (cash e - cost),
                  positions := AList.update (sg_symbol signal)
                     \<lparr>ep_quantity = quantity1,
                      ep_avg_cost = round_fval (fdiv total1 (Fin (to_double quantity1))),
                      ep_total_cost = total1\<rparr> (positions e),
                  trades := trades e @
                    [\<lparr>tr_date = sg_timestamp signal, tr_symbol = sg_symbol signal,
                      tr_direction = DirBUY, tr_price = actual_price, tr_quantity = qty,
                      tr_amount = amount, tr_commission = commission, tr_profit = None,
                      tr_cash_after = fl (cash e - cost)\<rparr>]\<rparr>))"
  unfolding execute_buy_def buy_price_def buy_quantity_def affordable_quantity_def held_def
    commission_of_def Let_def
  by (cases "map_of (positions e) (sg_symbol signal)")
     (simp_all split del: if_split cong: if_cong)

lemma execute_sell_unfold:
  "execute_sell e signal price =
    (case map_of (positions e) (sg_symbol signal) of
       None \<Rightarrow> e
     | Some pos \<Rightarrow>
        let qty = sell_quantity pos signal;
            amount = fl (to_double qty * sell_price e price);
            commission = commission_of e amount;
            stamp_duty = stamp_duty_of e amount;
            left = ep_quantity pos - qty
        in
         if ep_quantity pos \<le> 0 then e
         else if qty \<le> 0 then e
         else e\<lparr>cash := fl (cash e + fl (fl (amount - commission) - stamp_duty)),
                 positions := AList.update (sg_symbol signal)
                   (if left \<le> 0
                      then pos\<lparr>ep_quantity := 0, ep_total_cost := Fin 0, ep_avg_cost := Fin 0\<rparr>
                    else pos\<lparr>ep_quantity := left,
                              ep_total_cost :=
                                round_fval (fmul (Fin (to_double left)) (ep_avg_cost pos))\<rparr>)
                   (positions e),
                 trades := trades e @
                   [\<lparr>tr_date = sg_timestamp signal, tr_symbol = sg_symbol signal,
                     tr_direction = DirSELL, tr_price = sell_price e price,
                     tr_quantity = qty, tr_amount = amount,
                     tr_commission = fl (commission + stamp_duty),
                     tr_profit =
                       Some (round_fval (fsub (Fin amount)
                               (round_fval (fmul (Fin (to_double qty)) (ep_avg_cost pos))))),
                     tr_cash_after = fl (cash e + fl (fl (amount - commission) - stamp_duty))\<rparr>]\<rparr>)"
  unfolding execute_sell_def sell_quantity_def sell_price_def commission_of_def stamp_duty_of_def
    Let_def
  by (cases "map_of (positions e) (sg_symbol signal)")
     (simp_all split del: if_split cong: if_cong)

subsection \<open>The example data, evaluated\<close>

lemmas fl_numeral =
  fl_def [of "numeral a"] fl_def [of "numeral a / numeral b"]
  fl_def [of "1 / numeral b"] fl_def [of "- numeral a"] fl_def [of "- (numeral a / numeral b)"]
  fl_def [of "- (1 / numeral b)"] fl_def [of 1] fl_def [of 0]
  for a b

lemmas double_eval = fl_numeral binade_def round_half_even_def compute_bitlen to_double_def
  round_fval_def py_int_def requested_def Let_def

lemma ex_buy_eval: "execute_buy (reset ex_engine) (ex_signal BUY None) 10 = Inr ex_bought"
  by (simp add: execute_buy_def reset_def ex_engine_def ex_signal_def ex_bought_def ex_price_def
      ex_amount_def ex_cash_def double_eval)

lemma ex_sell_eval: "execute_sell ex_bought (ex_signal SELL None) 11 = ex_sold"
  by (simp add: execute_sell_def fsub_def ex_engine_def ex_signal_def ex_bought_def ex_sold_def
      ex_price_def ex_amount_def ex_cash_def double_eval)

lemma ex_broker_sell_eval:
  "broker_execute_sell ex_store ex_broker 0 11 (2, 0) =
     Inr (True, put ex_store 0 (update_fill ex_order 100 (10989 / 1000) (60989 / 10000) (2, 0)),
          ex_broker_sold)"
  by (simp add: broker_execute_sell_def sell_execution_price_def Let_def ex_store_def ex_broker_def
      ex_order_def ex_broker_sold_def)

lemma ex_buy_50_eval:
  "execute_buy (reset ex_engine) (ex_signal BUY (Some 50)) 10 =
     Inr (ex_engine\<lparr>cash := 9995,
            positions := [(''600000'', \<lparr>ep_quantity = 0, ep_avg_cost = NaN, ep_total_cost = Fin 0\<rparr>)],
            trades := [\<lparr>tr_date = (1, 0), tr_symbol = ''600000'', tr_direction = DirBUY,
                        tr_price = ex_price, tr_quantity = 0, tr_amount = 0, tr_commission = 5,
                        tr_profit = None, tr_cash_after = 9995\<rparr>]\<rparr>)"
  by (simp add: execute_buy_def reset_def ex_engine_def ex_signal_def ex_price_def double_eval)

lemma ex_run_bars:
  "run_bars (reset ex_engine) [ex_signal BUY (Some 50)] [ex_bar] = Inr ex_run_state"
  by (simp add: ex_bar_def ex_buy_50_eval)
     (simp add: ex_signal_def date_of_def update_daily_value_def ex_engine_def ex_run_state_def
        double_eval)

lemma ex_generate: "\<exists>r. generate_result ex_run_state ''buy_50'' = Inr r"
  by (simp add: generate_result_def ex_run_state_def ex_engine_def analyze_def
      df_empty_def set_column_def pct_change_def calculate_total_return_def column_def
      iloc_last_def calculate_annualized_return_def df_len_def calculate_sharpe_ratio_def
      has_column_def calculate_volatility_def calculate_max_drawdown_def Let_def)

lemma ex_run: "\<exists>r. run_backtest ex_engine ex_strategy [ex_bar] None = Inr (r, ex_run_state)"
  using ex_generate
  by (auto simp add: run_backtest_def ex_strategy_def ex_run_bars simp del: run_bars.simps)

lemma final_state_run_backtest:
  assumes "data \<noteq> []"
    and "run_bars (reset e0) (st_generate_signals strategy data) data = Inr e'"
  shows "final_state (run_backtest e0 strategy data None) = e'"
  using assms unfolding run_backtest_def final_state_def Let_def
  by (simp split: sum.splits)

lemma ex_round_trip_run_bars:
  "run_bars (reset ex_engine) (st_generate_signals ex_round_trip ex_bars) ex_bars =
     Inr ex_round_trip_state"
  by (simp add: ex_round_trip_def ex_bars_def execute_buy_def execute_sell_def fsub_def
      update_daily_value_def reset_def ex_engine_def ex_signal_def date_of_def
      ex_round_trip_state_def double_eval)

lemma ex_round_trip_generate: "\<exists>r. generate_result ex_round_trip_state ''round_trip'' = Inr r"
  by (auto simp add: generate_result_def ex_round_trip_state_def ex_engine_def analyze_def
      df_empty_def set_column_def pct_change_def calculate_total_return_def column_def
      iloc_last_def calculate_annualized_return_def df_len_def calculate_sharpe_ratio_def
      has_column_def calculate_volatility_def calculate_max_drawdown_def Let_def
      split: if_splits)

lemma ex_round_trip_run:
  "\<exists>r. run_backtest ex_engine ex_round_trip ex_bars None = Inr (r, ex_round_trip_state)"
proof -
  have "ex_bars \<noteq> []" by (simp add: ex_bars_def)
  moreover have "st_name ex_round_trip = ''round_trip''" by (simp add: ex_round_trip_def)
  ultimately show ?thesis
    using ex_round_trip_generate ex_round_trip_run_bars
    by (auto simp add: run_backtest_def)
qed

lemma ex_round_trip_sums:
  "cash ex_round_trip_state = 1386111466666627 / 137438953472"
  "buy_outflow (trades ex_round_trip_state) = 8980986897534811 / 1099511627776 + 5"
  "sell_inflow (trades ex_round_trip_state) =
     4547426160853647 / 549755813888 - 7471314155820695 / 562949953421312"
  by (simp_all add: ex_round_trip_state_def ex_engine_def buy_outflow_def sell_inflow_def)

subsection \<open>The ledger of the positions\<close>

text \<open>
  C1. After every execution every position should satisfy
  \<open>total_cost = quantity * avg_cost\<close> (within tolerance), \<open>quantity \<ge> 0\<close>, and
  \<open>quantity = 0\<close> should imply \<open>avg_cost = 0\<close> and \<open>total_cost = 0\<close>. The run of a
  strategy whose one signal is a BUY of 50 shares of a symbol not held, on one bar with
  the close 10, returns normally and leaves a position of that symbol with the quantity
  0 and the average cost NaN, next to a recorded trade of 0 shares: the lot is tested
  before the quantity is clamped to the requested one, not after, and \<open>0.0 / 0\<close> on a
  numpy float is NaN.
\<close>

theorem zero_share_buy_breaks_ledger:
  "map_sum fst snd (run_backtest ex_engine ex_strategy [ex_bar] None) = Inr ex_run_state \<and>
   map_of (positions ex_run_state) ''600000'' =
     Some \<lparr>ep_quantity = 0, ep_avg_cost = NaN, ep_total_cost = Fin 0\<rparr> \<and>
   ep_avg_cost (held ex_run_state ''600000'') \<noteq> Fin 0 \<and>
   map tr_quantity (trades ex_run_state) = [0]"
proof -
  from ex_run obtain r where
    "run_backtest ex_engine ex_strategy [ex_bar] None = Inr (r, ex_run_state)" ..
  then show ?thesis by (simp add: ex_run_state_def ex_engine_def held_def)
qed

subsection \<open>The worked example and the empty run\<close>

text \<open>
  C2 as stated fails in double precision: with the capital 10,000, the commission rate
  0.0003 and the slippage 0.001, the BUY at the close 10 buys 900 shares for the
  commission 5, but the price \<open>10.0 * (1 + 0.001)\<close> is neither 10.01 nor the double
  nearest to it, the amount is not 9009 and the cash left is not 986.
\<close>

theorem worked_example_as_stated_fails:
  "execute_buy (reset ex_engine) (ex_signal BUY None) 10 = Inr ex_bought \<and>
   map tr_price (trades ex_bought) = [ex_price] \<and> ex_price \<noteq> 1001 / 100 \<and>
   ex_price \<noteq> fl (1001 / 100) \<and>
   map tr_amount (trades ex_bought) = [ex_amount] \<and> ex_amount \<noteq> 9009 \<and>
   cash ex_bought = ex_cash \<and> ex_cash \<noteq> 986"
  by (simp add: ex_buy_eval)
     (simp add: ex_bought_def ex_engine_def ex_price_def ex_amount_def ex_cash_def double_eval)

text \<open>
  C2 (amended). With initial capital 10,000, commission rate 0.0003 and slippage 0.001, a
  single BUY signal without requested quantity at close 10.0 buys exactly 900 shares for
  the commission 5, whatever the symbol, the time and the other settings; the effective
  price is the double \<open>10.009999999999998\<close>, within \<open>2e-15\<close> of 10.01, the amount the
  double \<open>9008.999999999998\<close>, within \<open>2e-12\<close> of 9009, and the cash left the double
  \<open>986.0000000000018\<close>, within \<open>2e-12\<close> of 986.
\<close>

theorem buy_example:
  "execute_buy
     (reset \<lparr>initial_capital = 10000, commission_rate = fl (3 / 10000), stamp_duty_rate = sd,
             slippage = fl (1 / 1000), cash = c, positions = ps, trades = ts, daily_values = dvs,
             performance_analyzer = pa\<rparr>)
     \<lparr>sg_symbol = smb, sg_signal_type = BUY, sg_price = p, sg_timestamp = t, sg_strength = s,
      sg_quantity = None\<rparr> 10
   = Inr \<lparr>initial_capital = 10000, commission_rate = fl (3 / 10000), stamp_duty_rate = sd,
          slippage = fl (1 / 1000), cash = ex_cash,
          positions = [(smb, \<lparr>ep_quantity = 900, ep_avg_cost = Fin ex_price,
                              ep_total_cost = Fin ex_amount\<rparr>)],
          trades = [\<lparr>tr_date = t, tr_symbol = smb, tr_direction = DirBUY, tr_price = ex_price,
                     tr_quantity = 900, tr_amount = ex_amount, tr_commission = 5,
                     tr_profit = None, tr_cash_after = ex_cash\<rparr>],
          daily_values = [], performance_analyzer = pa\<rparr> \<and>
   ex_price = 1408782258436833 / 2 ^ 47 \<and> \<bar>ex_price - 1001 / 100\<bar> < 2 / 10 ^ 15 \<and>
   ex_amount = 4952750127316991 / 2 ^ 39 \<and> \<bar>ex_amount - 9009\<bar> < 2 / 10 ^ 12 \<and>
   ex_cash = 542059232493569 / 2 ^ 39 \<and> \<bar>ex_cash - 986\<bar> < 2 / 10 ^ 12"
  by (simp add: execute_buy_def reset_def ex_price_def ex_amount_def ex_cash_def double_eval)

text \<open>
  C8 as stated fails: a run on an empty bar series does not fail with an exception. The
  code has no \<open>EmptyDataError\<close>; the run returns normally, with a dictionary that holds
  an error message.
\<close>

theorem empty_run_raises_nothing:
  "\<not> isl (run_backtest ex_engine ex_strategy [] None) \<and>
   map_sum fst fst (run_backtest ex_engine ex_strategy [] None) = Inr (ErrorDict msg_data_empty)"
  by (simp add: run_backtest_def)

text \<open>
  C8 (amended). A run on an empty bar series returns the error dictionary whose message
  says that the data is empty, without raising, and it leaves the engine in the state of
  \<open>reset\<close>.
\<close>

theorem run_backtest_empty_data:
  "run_backtest e strategy [] symbol = Inr (ErrorDict msg_data_empty, reset e)"
  by (simp add: run_backtest_def)

subsection \<open>A buy of less than one lot\<close>

text \<open>
  C3. A BUY whose quantity, after clamping to the requested quantity and rounding down
  to the lot again, is below one lot should change nothing. The engine tests the lot only
  before clamping: with 100 shares held and 8994 in cash, a BUY that requests 50 shares at
  the close 10 computes the quantity 0, pays the minimum commission 5 and records a trade
  of 0 shares; on a symbol not held yet it pays the 5, records the trade and inserts a
  position of 0 shares at the average cost NaN.
\<close>

theorem buy_below_one_lot_is_not_a_noop:
  "execute_buy (reset ex_engine) (ex_signal BUY (Some 100)) 10 = Inr ex_held100 \<and>
   buy_quantity ex_held100 (ex_signal BUY (Some 50)) 10 = 0 \<and>
   execute_buy ex_held100 (ex_signal BUY (Some 50)) 10 =
     Inr (ex_held100\<lparr>cash := 8989,
            trades := trades ex_held100 @
              [\<lparr>tr_date = (1, 0), tr_symbol = ''600000'', tr_direction = DirBUY,
                tr_price = ex_price, tr_quantity = 0, tr_amount = 0, tr_commission = 5,
                tr_profit = None, tr_cash_after = 8989\<rparr>]\<rparr>) \<and>
   buy_quantity (reset ex_engine) (ex_signal BUY (Some 50)) 10 = 0 \<and>
   execute_buy (reset ex_engine) (ex_signal BUY (Some 50)) 10 =
     Inr (ex_engine\<lparr>cash := 9995,
            positions := [(''600000'', \<lparr>ep_quantity = 0, ep_avg_cost = NaN, ep_total_cost = Fin 0\<rparr>)],
            trades := [\<lparr>tr_date = (1, 0), tr_symbol = ''600000'', tr_direction = DirBUY,
                        tr_price = ex_price, tr_quantity = 0, tr_amount = 0, tr_commission = 5,
                        tr_profit = None, tr_cash_after = 9995\<rparr>]\<rparr>)"
  by (simp add: execute_buy_def reset_def ex_engine_def ex_signal_def ex_held100_def ex_price_def
      buy_quantity_def affordable_quantity_def buy_price_def double_eval)

text \<open>
  In general: whenever at least one lot is affordable, the quantity after clamping is 0
  and the cash covers the minimum commission, the buy records a trade, so it does not
  leave the engine as it was. The other half of the claim holds: a buy whose amount plus
  commission exceeds the cash changes nothing.
\<close>

lemma fl_five: "fl 5 = 5"
  by (simp add: double_eval)

lemma buy_of_no_share_is_not_a_noop:
  assumes "buy_price e price \<noteq> 0" and "100 \<le> affordable_quantity e price"
    and "buy_quantity e signal price = 0" and "5 \<le> cash e"
  shows "execute_buy e signal price \<noteq> Inr e"
proof -
  have "\<And>c ps t. e\<lparr>cash := c, positions := ps, trades := trades e @ [t]\<rparr> \<noteq> e"
  proof
    fix c ps t
    assume "e\<lparr>cash := c, positions := ps, trades := trades e @ [t]\<rparr> = e"
    then have "trades (e\<lparr>cash := c, positions := ps, trades := trades e @ [t]\<rparr>) = trades e"
      by simp
    then show False by simp
  qed
  with assms show ?thesis
    unfolding execute_buy_unfold Let_def
    by (simp add: to_double_def fl_zero commission_of_def fl_five)
qed

lemma buy_beyond_cash_is_a_noop:
  assumes "buy_price e price \<noteq> 0"
    and "cash e <
           fl (fl (to_double (buy_quantity e signal price) * buy_price e price)
               + commission_of e (fl (to_double (buy_quantity e signal price) * buy_price e price)))"
  shows "execute_buy e signal price = Inr e"
  using assms unfolding execute_buy_unfold Let_def by simp

subsection \<open>Profit and cash of a sell\<close>

text \<open>
  C4. Every executed SELL records the profit \<open>amount - quantity * avg_cost\<close>, without the
  fees, and credits the cash with \<open>amount - commission - stamp_duty\<close>, where
  \<open>amount = quantity * price\<close> of the trade and \<open>avg_cost\<close> is the average cost held
  before; on the path of the engine (a sell that changed the state), where every
  operation rounds to a double, and on the path of the simulated broker (a sell that
  returned \<open>True\<close>).
\<close>

theorem sell_profit_and_cash:
  "(execute_sell e signal price \<noteq> e \<longrightarrow>
      (let e' = execute_sell e signal price; t = last (trades e');
           pos = held e (sg_symbol signal)
       in trades e' = trades e @ [t] \<and> tr_direction t = DirSELL \<and>
          tr_amount t = fl (to_double (tr_quantity t) * tr_price t) \<and>
          tr_profit t =
            Some (round_fval (fsub (Fin (tr_amount t))
                    (round_fval (fmul (Fin (to_double (tr_quantity t))) (ep_avg_cost pos))))) \<and>
          cash e' = fl (cash e + fl (fl (tr_amount t - max (fl (tr_amount t * commission_rate e)) 5)
                                       - fl (tr_amount t * stamp_duty_rate e))))) \<and>
   (broker_execute_sell st b r cp now = Inr (True, st', b') \<longrightarrow>
      (\<exists>pos. map_of (br_positions b) (o_symbol (objs st r)) = Some pos \<and>
         (let t = last (br_trades b')
          in br_trades b' = br_trades b @ [t] \<and> bt_direction t = DirSELL \<and>
             bt_amount t = real_of_int (bt_quantity t) * bt_price t \<and>
             bt_profit t = Some (bt_amount t - real_of_int (bt_quantity t) * avg_cost pos) \<and>
             br_cash b' = br_cash b + (bt_amount t - max (bt_amount t * br_commission_rate b) 5
                                         - bt_amount t * br_stamp_duty_rate b))))"
proof (intro conjI impI)
  assume "execute_sell e signal price \<noteq> e"
  then show "let e' = execute_sell e signal price; t = last (trades e');
           pos = held e (sg_symbol signal)
       in trades e' = trades e @ [t] \<and> tr_direction t = DirSELL \<and>
          tr_amount t = fl (to_double (tr_quantity t) * tr_price t) \<and>
          tr_profit t =
            Some (round_fval (fsub (Fin (tr_amount t))
                    (round_fval (fmul (Fin (to_double (tr_quantity t))) (ep_avg_cost pos))))) \<and>
          cash e' = fl (cash e + fl (fl (tr_amount t - max (fl (tr_amount t * commission_rate e)) 5)
                                       - fl (tr_amount t * stamp_duty_rate e)))"
    unfolding execute_sell_unfold held_def commission_of_def stamp_duty_of_def Let_def
    by (auto split: option.splits if_splits)
next
  assume "broker_execute_sell st b r cp now = Inr (True, st', b')"
  then show "\<exists>pos. map_of (br_positions b) (o_symbol (objs st r)) = Some pos \<and>
         (let t = last (br_trades b')
          in br_trades b' = br_trades b @ [t] \<and> bt_direction t = DirSELL \<and>
             bt_amount t = real_of_int (bt_quantity t) * bt_price t \<and>
             bt_profit t = Some (bt_amount t - real_of_int (bt_quantity t) * avg_cost pos) \<and>
             br_cash b' = br_cash b + (bt_amount t - max (bt_amount t * br_commission_rate b) 5
                                         - bt_amount t * br_stamp_duty_rate b))"
    unfolding broker_execute_sell_def Let_def
    by (auto split: option.splits if_splits sum.splits)
qed

theorem sell_profit_and_cash_witness:
  "execute_sell ex_bought (ex_signal SELL None) 11 = ex_sold \<and> ex_sold \<noteq> ex_bought \<and>
   tr_profit (last (trades ex_sold)) =
     Some (round_fval (fsub (Fin (5437139974933709 / 549755813888))
             (round_fval (fmul (Fin (to_double 900)) (Fin ex_price))))) \<and>
   tr_profit (last (trades ex_sold)) = Some (Fin (242194923808359 / 274877906944)) \<and>
   cash ex_sold =
     fl (ex_cash + fl (fl (5437139974933709 / 549755813888 - 5)
                       - 2783815667166059 / 281474976710656)) \<and>
   cash ex_sold = 746376661047863 / 68719476736 \<and>
   broker_execute_sell ex_store ex_broker 0 11 (2, 0) =
     Inr (True, put ex_store 0 (update_fill ex_order 100 (10989 / 1000) (60989 / 10000) (2, 0)),
          ex_broker_sold) \<and>
   bt_profit (last (br_trades ex_broker_sold)) = Some (10989 / 10 - 100 * 10) \<and>
   br_cash ex_broker_sold = br_cash ex_broker + (10989 / 10 - 5 - 10989 / 10000)"
proof -
  have ne: "execute_sell ex_bought (ex_signal SELL None) 11 \<noteq> ex_bought"
    by (simp add: ex_sell_eval) (simp add: ex_sold_def ex_bought_def ex_engine_def)
  from sell_profit_and_cash [of ex_bought "ex_signal SELL None" 11 ex_store ex_broker 0 11 "(2, 0)"
      "put ex_store 0 (update_fill ex_order 100 (10989 / 1000) (60989 / 10000) (2, 0))"
      ex_broker_sold] ne ex_broker_sell_eval
  show ?thesis
    by (simp add: ex_sell_eval Let_def held_def)
       (simp add: ex_sold_def ex_bought_def ex_engine_def ex_signal_def ex_broker_sold_def
          ex_broker_def ex_store_def ex_order_def ex_price_def ex_cash_def ex_amount_def fsub_def
          double_eval)
qed

subsection \<open>The cash accounts for the trades\<close>

lemma scaled_sum_bound:
  assumes "\<bar>d\<bar> \<le> \<bar>x\<bar> / 2 ^ 53" and "\<bar>x\<bar> \<le> (b::real)"
  shows "\<bar>d :: real\<bar> \<le> b / 2 ^ 53"
proof -
  from assms(2) have "\<bar>x\<bar> / 2 ^ 53 \<le> b / 2 ^ 53" by (intro divide_right_mono) simp_all
  with assms(1) show ?thesis by linarith
qed

lemma rounded_bound: "\<bar>fl x\<bar> \<le> 2 * \<bar>x\<bar>"
proof -
  have "\<bar>x\<bar> / 2 ^ 53 \<le> \<bar>x\<bar> / 1" by (intro divide_left_mono) simp_all
  then have "\<bar>x\<bar> / 2 ^ 53 \<le> \<bar>x\<bar>" by simp
  moreover have "\<bar>fl x\<bar> \<le> \<bar>fl x - x\<bar> + \<bar>x\<bar>" by linarith
  ultimately show ?thesis using fl_error [of x] by linarith
qed

lemma abs_sum4: "\<bar>p + q + r + s\<bar> \<le> \<bar>p\<bar> + \<bar>q\<bar> + \<bar>r\<bar> + \<bar>s :: real\<bar>"
proof -
  have "\<bar>p + q + r + s\<bar> \<le> \<bar>p + q + r\<bar> + \<bar>s\<bar>" by (rule abs_triangle_ineq)
  also have "\<bar>p + q + r\<bar> \<le> \<bar>p + q\<bar> + \<bar>r\<bar>" by (rule abs_triangle_ineq)
  also have "\<bar>p + q\<bar> \<le> \<bar>p\<bar> + \<bar>q\<bar>" by (rule abs_triangle_ineq)
  finally show ?thesis by simp
qed

lemma sell_slack_sum:
  assumes "t \<le> p + q + r + s" and "p \<le> X" and "q \<le> 2 * A + 2 * B + S" and "r \<le> A + B"
    and "s \<le> B + S"
  shows "t \<le> X + 3 * A + 4 * B + 2 * (S :: real)"
  using assms by linarith

lemma rounded_difference_bound:
  assumes "w \<le> 2 * d" and "d \<le> x + y" and "z \<le> w + s"
  shows "z \<le> 2 * x + 2 * y + (s :: real)"
  using assms by linarith

lemma buy_step_error:
  "\<bar>fl (C - fl (a + c)) - C + (a + c)\<bar> \<le> (\<bar>fl (C - fl (a + c))\<bar> + \<bar>a\<bar> + \<bar>c\<bar>) / 2 ^ 53"
proof -
  define T where "T = fl (a + c)"
  define C' where "C' = fl (C - T)"
  have 1: "\<bar>C' - (C - T)\<bar> \<le> \<bar>C'\<bar> / 2 ^ 53"
    unfolding C'_def by (rule fl_error_result)
  have "\<bar>T - (a + c)\<bar> \<le> (\<bar>a\<bar> + \<bar>c\<bar>) / 2 ^ 53"
    unfolding T_def by (rule scaled_sum_bound [OF fl_error]) (rule abs_triangle_ineq)
  then have 2: "\<bar>T - (a + c)\<bar> \<le> \<bar>a\<bar> / 2 ^ 53 + \<bar>c\<bar> / 2 ^ 53"
    by (simp add: add_divide_distrib)
  have "\<bar>C' - C + (a + c)\<bar> \<le> \<bar>C' - (C - T)\<bar> + \<bar>T - (a + c)\<bar>" by linarith
  with 1 2 have "\<bar>C' - C + (a + c)\<bar> \<le> \<bar>C'\<bar> / 2 ^ 53 + \<bar>a\<bar> / 2 ^ 53 + \<bar>c\<bar> / 2 ^ 53"
    by linarith
  then show ?thesis unfolding C'_def T_def by (simp add: add_divide_distrib)
qed

lemma sell_step_error:
  "\<bar>fl (C + fl (fl (a - c) - s)) - C - (a - fl (c + s))\<bar>
     \<le> (\<bar>fl (C + fl (fl (a - c) - s))\<bar> + 3 * \<bar>a\<bar> + 4 * \<bar>c\<bar> + 2 * \<bar>s\<bar>) / 2 ^ 53"
proof -
  define W where "W = fl (a - c)"
  define V where "V = fl (W - s)"
  define C' where "C' = fl (C + V)"
  define f where "f = fl (c + s)"
  define A where "A = \<bar>a\<bar> / 2 ^ 53"
  define B where "B = \<bar>c\<bar> / 2 ^ 53"
  define S where "S = \<bar>s\<bar> / 2 ^ 53"
  define X where "X = \<bar>C'\<bar> / 2 ^ 53"
  have 1: "\<bar>C' - (C + V)\<bar> \<le> X"
    unfolding C'_def X_def by (rule fl_error_result)
  have "\<bar>W\<bar> \<le> 2 * \<bar>a - c\<bar>" unfolding W_def by (rule rounded_bound)
  then have "\<bar>W - s\<bar> \<le> 2 * \<bar>a\<bar> + 2 * \<bar>c\<bar> + \<bar>s\<bar>"
    by (rule rounded_difference_bound) (rule abs_triangle_ineq4)+
  then have "\<bar>V - (W - s)\<bar> \<le> (2 * \<bar>a\<bar> + 2 * \<bar>c\<bar> + \<bar>s\<bar>) / 2 ^ 53"
    unfolding V_def by (rule scaled_sum_bound [OF fl_error])
  then have 2: "\<bar>V - (W - s)\<bar> \<le> 2 * A + 2 * B + S"
    by (simp add: add_divide_distrib A_def B_def S_def)
  have "\<bar>W - (a - c)\<bar> \<le> (\<bar>a\<bar> + \<bar>c\<bar>) / 2 ^ 53"
    unfolding W_def by (rule scaled_sum_bound [OF fl_error]) (rule abs_triangle_ineq4)
  then have 3: "\<bar>W - (a - c)\<bar> \<le> A + B"
    by (simp add: add_divide_distrib A_def B_def)
  have "\<bar>f - (c + s)\<bar> \<le> (\<bar>c\<bar> + \<bar>s\<bar>) / 2 ^ 53"
    unfolding f_def by (rule scaled_sum_bound [OF fl_error]) (rule abs_triangle_ineq)
  then have 4: "\<bar>f - (c + s)\<bar> \<le> B + S"
    by (simp add: add_divide_distrib B_def S_def)
  have "C' - C - (a - f) = (C' - (C + V)) + (V - (W - s)) + (W - (a - c)) + (f - (c + s))"
    by simp
  then have "\<bar>C' - C - (a - f)\<bar>
          \<le> \<bar>C' - (C + V)\<bar> + \<bar>V - (W - s)\<bar> + \<bar>W - (a - c)\<bar> + \<bar>f - (c + s)\<bar>"
    by (simp only: abs_sum4)
  then have "\<bar>C' - C - (a - f)\<bar> \<le> X + 3 * A + 4 * B + 2 * S"
    using 1 2 3 4 by (rule sell_slack_sum)
  then show ?thesis
    unfolding C'_def V_def W_def f_def X_def A_def B_def S_def
    by (simp add: add_divide_distrib)
qed

lemma residual_step:
  assumes "\<bar>R\<bar> \<le> T" and "\<bar>d\<bar> \<le> s"
  shows "\<bar>R + d\<bar> \<le> T + (s :: real)"
  using assms by linarith

lemma reset_accounted: "accounted e0 (reset e0)"
  unfolding accounted_def cash_residual_def tolerance_def reset_def buy_outflow_def sell_inflow_def
  by simp

lemma buy_trade_accounted:
  assumes "accounted e0 e"
  shows "accounted e0
           (e\<lparr>cash := fl (cash e - fl (a + c)), positions := ps,
              trades := trades e @
                [\<lparr>tr_date = d, tr_symbol = s, tr_direction = DirBUY, tr_price = p,
                  tr_quantity = q, tr_amount = a, tr_commission = c, tr_profit = pr,
                  tr_cash_after = fl (cash e - fl (a + c))\<rparr>]\<rparr>)"
proof -
  define R where "R = cash_residual (initial_capital e0) e"
  define C' where "C' = fl (cash e - fl (a + c))"
  from assms have R: "\<bar>R\<bar> \<le> tolerance e0 (trades e)" unfolding accounted_def R_def by simp
  have "\<bar>C' - cash e + (a + c)\<bar> \<le> (\<bar>C'\<bar> + \<bar>a\<bar> + \<bar>c\<bar>) / 2 ^ 53"
    unfolding C'_def by (rule buy_step_error)
  with R have "\<bar>R + (C' - cash e + (a + c))\<bar>
                 \<le> tolerance e0 (trades e) + (\<bar>C'\<bar> + \<bar>a\<bar> + \<bar>c\<bar>) / 2 ^ 53"
    by (rule residual_step)
  then show ?thesis
    using assms
    unfolding accounted_def cash_residual_def tolerance_def buy_outflow_def sell_inflow_def
      rounding_slack_def R_def C'_def
    by (simp add: add_divide_distrib algebra_simps)
qed

lemma sell_trade_accounted:
  assumes "accounted e0 e"
  shows "accounted e0
           (e\<lparr>cash := fl (cash e + fl (fl (a - commission_of e a) - stamp_duty_of e a)),
              positions := ps,
              trades := trades e @
                [\<lparr>tr_date = d, tr_symbol = s, tr_direction = DirSELL, tr_price = p,
                  tr_quantity = q, tr_amount = a,
                  tr_commission = fl (commission_of e a + stamp_duty_of e a), tr_profit = pr,
                  tr_cash_after = fl (cash e + fl (fl (a - commission_of e a) - stamp_duty_of e a))\<rparr>]\<rparr>)"
proof -
  define R where "R = cash_residual (initial_capital e0) e"
  define c where "c = commission_of e0 a"
  define sd where "sd = stamp_duty_of e0 a"
  define C' where "C' = fl (cash e + fl (fl (a - c) - sd))"
  from assms have R: "\<bar>R\<bar> \<le> tolerance e0 (trades e)" unfolding accounted_def R_def by simp
  from assms have rates: "commission_of e a = c" "stamp_duty_of e a = sd"
    unfolding accounted_def c_def sd_def commission_of_def stamp_duty_of_def by simp_all
  have c: "\<bar>c\<bar> = c" unfolding c_def commission_of_def by simp
  have "\<bar>C' - cash e - (a - fl (c + sd))\<bar> \<le> (\<bar>C'\<bar> + 3 * \<bar>a\<bar> + 4 * \<bar>c\<bar> + 2 * \<bar>sd\<bar>) / 2 ^ 53"
    unfolding C'_def by (rule sell_step_error)
  with R have "\<bar>R + (C' - cash e - (a - fl (c + sd)))\<bar>
                 \<le> tolerance e0 (trades e) + (\<bar>C'\<bar> + 3 * \<bar>a\<bar> + 4 * \<bar>c\<bar> + 2 * \<bar>sd\<bar>) / 2 ^ 53"
    by (rule residual_step)
  then show ?thesis
    using assms
    unfolding rates c accounted_def cash_residual_def tolerance_def buy_outflow_def sell_inflow_def
      rounding_slack_def R_def C'_def c_def [symmetric] sd_def [symmetric]
    by (simp add: add_divide_distrib algebra_simps c c_def [symmetric] sd_def [symmetric])
qed

lemma execute_buy_accounted:
  assumes "accounted e0 e"
  shows "accounted e0 (state_after (execute_buy e signal price))"
  using assms unfolding execute_buy_unfold Let_def state_after_def
  by (simp add: buy_trade_accounted)

lemma execute_sell_accounted:
  assumes "accounted e0 e"
  shows "accounted e0 (execute_sell e signal price)"
  using assms unfolding execute_sell_unfold Let_def
  by (simp add: sell_trade_accounted split: option.splits)

lemma update_daily_value_accounted:
  "accounted e0 e \<Longrightarrow> accounted e0 (update_daily_value e d p)"
  unfolding accounted_def cash_residual_def update_daily_value_def Let_def by simp

lemma daily_value_multiple_accounted:
  "accounted e0 e \<Longrightarrow> accounted e0 (daily_value_multiple e data_dict d)"
  unfolding accounted_def cash_residual_def daily_value_multiple_def Let_def by simp

lemma process_signals_accounted:
  "accounted e0 e \<Longrightarrow> accounted e0 (state_after (process_signals e signals d p))"
proof (induction e signals d p rule: process_signals.induct)
  case (1 e d p)
  then show ?case by (simp add: state_after_def)
next
  case (2 e signal signals d p)
  show ?case
  proof (cases "execute_buy e signal p")
    case (Inl x)
    with execute_buy_accounted [OF "2.prems", of signal p] "2.prems" "2.IH"
    show ?thesis
      by (auto simp add: state_after_def execute_sell_accounted split: prod.splits)
  next
    case (Inr e')
    with execute_buy_accounted [OF "2.prems", of signal p] "2.prems" "2.IH"
    show ?thesis
      by (auto simp add: state_after_def execute_sell_accounted)
  qed
qed

lemma run_bars_accounted:
  "accounted e0 e \<Longrightarrow> accounted e0 (state_after (run_bars e signals rows))"
proof (induction rows arbitrary: e)
  case Nil
  then show ?case by (simp add: state_after_def)
next
  case (Cons row rows)
  have step: "accounted e0 (state_after (process_signals e signals (b_date row) (b_close row)))"
    using Cons.prems by (rule process_signals_accounted)
  show ?case
  proof (cases "process_signals e signals (b_date row) (b_close row)")
    case (Inl x)
    with step show ?thesis by (simp add: state_after_def)
  next
    case (Inr e')
    with step have "accounted e0 e'" by (simp add: state_after_def)
    then have "accounted e0 (update_daily_value e' (b_date row) (b_close row))"
      by (rule update_daily_value_accounted)
    then have "accounted e0
                 (state_after (run_bars (update_daily_value e' (b_date row) (b_close row)) signals rows))"
      by (rule Cons.IH)
    with Inr show ?thesis by simp
  qed
qed

lemma process_frames_accounted:
  "accounted e0 e \<Longrightarrow> accounted e0 (state_after (process_frames e signals d frames))"
proof (induction frames arbitrary: e)
  case Nil
  then show ?case by (simp add: state_after_def)
next
  case (Cons frame frames)
  obtain symbol data where frame: "frame = (symbol, data)" by (cases frame)
  show ?case
  proof (cases "close_at data d")
    case None
    with frame Cons show ?thesis by simp
  next
    case (Some p)
    have step: "accounted e0 (state_after (process_signals e signals d p))"
      using Cons.prems by (rule process_signals_accounted)
    show ?thesis
    proof (cases "process_signals e signals d p")
      case (Inl x)
      with step frame Some show ?thesis by (simp add: state_after_def)
    next
      case (Inr e')
      with step have "accounted e0 e'" by (simp add: state_after_def)
      then have "accounted e0 (state_after (process_frames e' signals d frames))"
        by (rule Cons.IH)
      with Inr frame Some show ?thesis by simp
    qed
  qed
qed

lemma run_dates_accounted:
  "accounted e0 e \<Longrightarrow> accounted e0 (state_after (run_dates e signals data_dict dates))"
proof (induction dates arbitrary: e)
  case Nil
  then show ?case by (simp add: state_after_def)
next
  case (Cons d dates)
  let ?current = "filter (\<lambda>s. sg_timestamp s = d) signals"
  have step: "accounted e0 (state_after (process_frames e ?current d data_dict))"
    using Cons.prems by (rule process_frames_accounted)
  show ?case
  proof (cases "process_frames e ?current d data_dict")
    case (Inl x)
    with step show ?thesis by (simp add: state_after_def)
  next
    case (Inr e')
    with step have "accounted e0 e'" by (simp add: state_after_def)
    then have "accounted e0 (daily_value_multiple e' data_dict d)"
      by (rule daily_value_multiple_accounted)
    then have "accounted e0
                 (state_after (run_dates (daily_value_multiple e' data_dict d) signals data_dict dates))"
      by (rule Cons.IH)
    with Inr show ?thesis by simp
  qed
qed

lemma run_backtest_accounted:
  "accounted e0 (final_state (run_backtest e0 strategy data symbol))"
proof (cases "data = []")
  case True
  then show ?thesis by (simp add: run_backtest_def final_state_def reset_accounted)
next
  case False
  define signals where
    "signals = (case symbol of
                  None \<Rightarrow> st_generate_signals strategy data
                | Some s \<Rightarrow> (if s = [] then st_generate_signals strategy data
                           else map (\<lambda>signal. signal\<lparr>sg_symbol := s\<rparr>)
                                  (st_generate_signals strategy data)))"
  from run_bars_accounted [OF reset_accounted, of e0 signals data] False
  show ?thesis
    unfolding run_backtest_def Let_def final_state_def signals_def state_after_def
    by (auto split: sum.splits prod.splits)
qed

lemma run_backtest_multiple_accounted:
  "accounted e0 (final_state (run_backtest_multiple e0 strategy data_dict))"
proof (cases "common_dates_of data_dict")
  case (Inl err)
  then show ?thesis
    by (simp add: run_backtest_multiple_def final_state_def reset_accounted)
next
  case (Inr dates)
  from run_dates_accounted [OF reset_accounted, of e0 "all_signals_of strategy data_dict" data_dict dates]
    Inr
  show ?thesis
    unfolding run_backtest_multiple_def Let_def final_state_def state_after_def
    by (auto split: sum.splits prod.splits)
qed

text \<open>
  C5 as stated, \<open>cash_start - cash_end + \<Sum>buys - \<Sum>sells = 0\<close>, fails on the run that
  buys 400 shares at the close 20.4 and sells them at the close 20.7: the expression is
  about \<open>-170.58\<close>, since its first two terms have the wrong sign. With the sign
  corrected it is \<open>151 / 2^49\<close>, about \<open>2.7e-13\<close>, and still not zero: the cash is
  rounded after every trade.
\<close>

theorem conservation_as_stated_fails:
  "map_sum fst snd (run_backtest ex_engine ex_round_trip ex_bars None) = Inr ex_round_trip_state \<and>
   initial_capital ex_engine - cash ex_round_trip_state + buy_outflow (trades ex_round_trip_state)
     - sell_inflow (trades ex_round_trip_state) = - 96026066506768233 / 562949953421312 \<and>
   initial_capital ex_engine - cash ex_round_trip_state + buy_outflow (trades ex_round_trip_state)
     - sell_inflow (trades ex_round_trip_state) \<noteq> 0 \<and>
   cash ex_round_trip_state - initial_capital ex_engine + buy_outflow (trades ex_round_trip_state)
     - sell_inflow (trades ex_round_trip_state) = 151 / 2 ^ 49 \<and>
   cash ex_round_trip_state - initial_capital ex_engine + buy_outflow (trades ex_round_trip_state)
     - sell_inflow (trades ex_round_trip_state) \<noteq> 0"
proof -
  from ex_round_trip_run obtain r where
    "run_backtest ex_engine ex_round_trip ex_bars None = Inr (r, ex_round_trip_state)" ..
  then show ?thesis
    by (simp add: ex_round_trip_sums) (simp add: ex_engine_def)
qed

text \<open>
  C5 (amended). For every run of \<open>run_backtest\<close> and of \<open>run_backtest_multiple\<close>, in
  the state the run leaves (when it returns, and when it raises), the cash at the end
  minus the initial capital, plus amount and commission of the buys recorded, minus the
  net revenue of the sells recorded, is zero within the rounding of the trades:
  \<open>|cash_end - cash_start + \<Sum>buys - \<Sum>sells| \<le> tolerance\<close>, where the tolerance is
  \<open>2^-53\<close> times the sum, over the trades recorded, of
  \<open>|cash_after| + |amount| + |commission|\<close> for a buy and of
  \<open>|cash_after| + 3 |amount| + 4 commission + 2 |stamp_duty|\<close> for a sell.
\<close>

theorem cash_conservation:
  "(let e' = final_state (run_backtest e0 strategy data symbol)
    in \<bar>cash e' - initial_capital e0 + buy_outflow (trades e') - sell_inflow (trades e')\<bar>
         \<le> tolerance e0 (trades e')) \<and>
   (let e' = final_state (run_backtest_multiple e0 strategy data_dict)
    in \<bar>cash e' - initial_capital e0 + buy_outflow (trades e') - sell_inflow (trades e')\<bar>
         \<le> tolerance e0 (trades e'))"
  using run_backtest_accounted [of e0 strategy data symbol]
    run_backtest_multiple_accounted [of e0 strategy data_dict]
  unfolding accounted_def cash_residual_def Let_def by simp

theorem cash_conservation_witness:
  "final_state (run_backtest ex_engine ex_round_trip ex_bars None) = ex_round_trip_state \<and>
   \<bar>cash ex_round_trip_state - initial_capital ex_engine + buy_outflow (trades ex_round_trip_state)
      - sell_inflow (trades ex_round_trip_state)\<bar>
     \<le> tolerance ex_engine (trades ex_round_trip_state) \<and>
   tolerance ex_engine (trades ex_round_trip_state) < 1 / 10 ^ 11"
proof -
  have run: "final_state (run_backtest ex_engine ex_round_trip ex_bars None) = ex_round_trip_state"
    using ex_round_trip_run_bars by (intro final_state_run_backtest) (simp_all add: ex_bars_def)
  have "tolerance ex_engine (trades ex_round_trip_state) < 1 / 10 ^ 11"
    by (simp add: tolerance_def rounding_slack_def commission_of_def stamp_duty_of_def
        ex_round_trip_state_def ex_engine_def double_eval)
  with cash_conservation [of ex_engine ex_round_trip ex_bars None] run show ?thesis
    by (simp add: Let_def)
qed

section \<open>Properties of the order path\<close>

text \<open>
  The order manager guards every transition: on an order that is not active (so on every
  FILLED, CANCELLED or REJECTED order) its four methods return \<open>False\<close> and change
  nothing, \<open>reject_order\<close> does so on every order that is not PENDING, and the broker's
  \<open>cancel_order\<close> refuses an order that is not active as well.
\<close>

lemma terminal_not_active:
  "o_status ord \<in> {FILLED, CANCELLED, REJECTED} \<Longrightarrow> \<not> is_active ord"
  by (auto simp: is_active_def)

lemma cancel_terminal: "\<not> is_active ord \<Longrightarrow> cancel ord reason now = ord"
  by (simp add: cancel_def)

lemma manager_refuses_terminal:
  assumes "map_of (om_orders om) order_id = Some r" and "\<not> is_active (objs st r)"
  shows "submit_order st om order_id now = (False, st, om)"
    and "fill_order st om order_id q p c now = (False, st, om)"
    and "cancel_order st om order_id reason now = (False, st, om)"
    and "reject_order st om order_id reason now = (False, st, om)"
  using assms
  by (auto simp: submit_order_def fill_order_def cancel_order_def reject_order_def is_active_def)

lemma manager_rejects_pending_only:
  assumes "map_of (om_orders om) order_id = Some r" and "o_status (objs st r) \<noteq> PENDING"
  shows "reject_order st om order_id reason now = (False, st, om)"
  using assms by (simp add: reject_order_def)

lemma broker_cancel_refuses_terminal:
  assumes "map_of (br_orders b) order_id = Some r" and "\<not> is_active (objs st r)"
  shows "broker_cancel_order st b order_id now = (False, st, b)"
  using assms by (simp add: broker_cancel_order_def)

text \<open>
  C6. An order should become REJECTED only from PENDING, and no transition should leave
  a terminal state. \<open>OrderManager.reject_order\<close> tests for PENDING, but the simulated
  broker calls \<open>order.reject\<close> and writes SUBMITTED without any test: an order created
  by the manager and submitted to the broker is SUBMITTED; executing it without enough
  cash rejects it, from SUBMITTED; submitting the rejected order to the broker again makes
  it SUBMITTED, out of the terminal state REJECTED.
\<close>

theorem broker_rejects_submitted_order:
  "(let (r, st1, om1) = create_order ex_empty_store ex_manager ''600000'' OrderBUY 1000 MARKET
                          None None None (1, 0) ''t1'';
        (ok1, st2, b1) = broker_submit_order st1 ex_fresh_broker r
    in o_status (objs st1 r) = PENDING \<and> ok1 \<and> o_status (objs st2 r) = SUBMITTED \<and>
       (case execute_order st2 b1 r 10 (2, 0) of
          Inl _ \<Rightarrow> False
        | Inr (ok2, st3, b2) \<Rightarrow>
            \<not> ok2 \<and> o_status (objs st3 r) = REJECTED \<and>
            o_message (objs st3 r) = msg_insufficient_funds \<and>
            (let (ok3, st4, b3) = broker_submit_order st3 b2 r
             in ok3 \<and> o_status (objs st4 r) = SUBMITTED)))"
  by (simp add: create_order_def alloc_def put_def broker_submit_order_def execute_order_def
      broker_execute_buy_def buy_execution_price_def reject_def Let_def ex_empty_store_def
      ex_manager_def ex_fresh_broker_def direction_value_def)

section \<open>Properties of the performance analyzer\<close>

lemma annualized_return_total:
  assumes "complete_frame df"
  shows "\<exists>v. calculate_annualized_return df = Inr v"
proof -
  from assms obtain c where c: "map_of (df_columns df) ''cumulative_return'' = Some c"
      "length c = length (df_index df)"
    unfolding complete_frame_def by (auto split: option.splits)
  show ?thesis
  proof (cases "df_empty df \<or> df_len df < 2")
    case True
    then show ?thesis unfolding calculate_annualized_return_def by simp
  next
    case False
    with c have "c \<noteq> []" unfolding df_len_def by auto
    with False c show ?thesis
      unfolding calculate_annualized_return_def column_def iloc_last_def Let_def
      by (auto split: list.splits)
  qed
qed

lemma max_drawdown_total:
  assumes "complete_frame df"
  shows "\<exists>v. calculate_max_drawdown df = Inr v"
  using assms unfolding complete_frame_def calculate_max_drawdown_def column_def Let_def
  by (auto split: option.splits)

lemma feq_fabs_zero: "feq (fabs v) (Fin 0) = feq v (Fin 0)"
  by (cases v) auto

lemma downside_std_empty: "\<not> feq (fmul (series_std []) x) (Fin 0)"
  by (simp add: series_std_def dropna_def)

text \<open>
  C7 as stated fails on a frame without rows: it has no negative daily return and its
  maximal drawdown is 0, yet Sortino and Calmar return 0 there, not \<open>+\<infinity>\<close>; the
  calculators test for the empty frame first.
\<close>

theorem ratio_sentinels_as_stated_fail:
  "no_negative_returns ex_empty_frame \<and>
   calculate_sortino_ratio (performance_analyzer ex_engine) ex_empty_frame = Inr (Fin 0) \<and>
   calculate_sortino_ratio (performance_analyzer ex_engine) ex_empty_frame \<noteq> Inr PInf \<and>
   calculate_max_drawdown ex_empty_frame = Inr (Fin 0) \<and>
   calculate_calmar_ratio ex_empty_frame = Inr (Fin 0) \<and>
   calculate_calmar_ratio ex_empty_frame \<noteq> Inr PInf"
  by (simp add: no_negative_returns_def negative_returns_def calculate_sortino_ratio_def
      calculate_max_drawdown_def calculate_calmar_ratio_def df_empty_def ex_empty_frame_def)

text \<open>
  C7 (amended). On an empty frame the three ratio calculators return 0. On a frame that is
  not empty and has the columns that \<open>analyze\<close> builds, none of them raises, and:
  Sharpe returns 0 when the volatility is 0; Sortino returns \<open>+\<infinity>\<close> when there is no
  negative daily return and 0 when the downside deviation is 0; Calmar returns \<open>+\<infinity>\<close>
  when the maximal drawdown is 0.
\<close>

theorem ratio_sentinels:
  "(df_empty df \<longrightarrow>
      calculate_sharpe_ratio pa df = Inr (Fin 0) \<and>
      calculate_sortino_ratio pa df = Inr (Fin 0) \<and>
      calculate_calmar_ratio df = Inr (Fin 0)) \<and>
   (\<not> df_empty df \<and> complete_frame df \<longrightarrow>
      (\<exists>v. calculate_sharpe_ratio pa df = Inr v) \<and>
      (\<exists>v. calculate_sortino_ratio pa df = Inr v) \<and>
      (\<exists>v. calculate_calmar_ratio df = Inr v) \<and>
      (feq (calculate_volatility df) (Fin 0) \<longrightarrow> calculate_sharpe_ratio pa df = Inr (Fin 0)) \<and>
      (no_negative_returns df \<longrightarrow> calculate_sortino_ratio pa df = Inr PInf) \<and>
      (feq (downside_std df) (Fin 0) \<longrightarrow> calculate_sortino_ratio pa df = Inr (Fin 0)) \<and>
      (calculate_max_drawdown df = Inr (Fin 0) \<longrightarrow> calculate_calmar_ratio df = Inr PInf))"
proof (intro conjI impI)
  assume "df_empty df"
  then show "calculate_sharpe_ratio pa df = Inr (Fin 0)"
    and "calculate_sortino_ratio pa df = Inr (Fin 0)"
    and "calculate_calmar_ratio df = Inr (Fin 0)"
    unfolding calculate_sharpe_ratio_def calculate_sortino_ratio_def calculate_calmar_ratio_def
    by simp_all
next
  assume a: "\<not> df_empty df \<and> complete_frame df"
  then obtain ar md where ar: "calculate_annualized_return df = Inr ar"
    and md: "calculate_max_drawdown df = Inr md"
    using annualized_return_total max_drawdown_total by blast
  from a obtain c where c: "map_of (df_columns df) ''daily_return'' = Some c"
    unfolding complete_frame_def by (auto split: option.splits)
  show "\<exists>v. calculate_sharpe_ratio pa df = Inr v"
    using ar unfolding calculate_sharpe_ratio_def Let_def by simp
  show "\<exists>v. calculate_sortino_ratio pa df = Inr v"
    using a ar c unfolding calculate_sortino_ratio_def Let_def by simp
  show "\<exists>v. calculate_calmar_ratio df = Inr v"
    using a ar md unfolding calculate_calmar_ratio_def Let_def by simp
  {
    assume "feq (calculate_volatility df) (Fin 0)"
    then show "calculate_sharpe_ratio pa df = Inr (Fin 0)"
      using ar unfolding calculate_sharpe_ratio_def Let_def by simp
  }
  {
    assume "no_negative_returns df"
    then show "calculate_sortino_ratio pa df = Inr PInf"
      using a ar c unfolding calculate_sortino_ratio_def no_negative_returns_def Let_def by simp
  }
  {
    assume "feq (downside_std df) (Fin 0)"
    then show "calculate_sortino_ratio pa df = Inr (Fin 0)"
      using a ar c downside_std_empty
      unfolding calculate_sortino_ratio_def downside_std_def Let_def by auto
  }
  {
    assume "calculate_max_drawdown df = Inr (Fin 0)"
    then show "calculate_calmar_ratio df = Inr PInf"
      using a ar unfolding calculate_calmar_ratio_def Let_def by simp
  }
qed

lemma ex_flat_facts:
  "\<not> df_empty ex_flat_frame" "complete_frame ex_flat_frame"
  "feq (calculate_volatility ex_flat_frame) (Fin 0)"
  "no_negative_returns ex_flat_frame"
  "calculate_max_drawdown ex_flat_frame = Inr (Fin 0)"
  by (simp_all add: df_empty_def complete_frame_def ex_flat_frame_def calculate_volatility_def
      series_std_def dropna_def fsum_def fsub_def no_negative_returns_def negative_returns_def
      calculate_max_drawdown_def column_def cummax_def series_min_def Let_def)

lemma ex_falling_facts:
  "\<not> df_empty ex_falling_frame" "complete_frame ex_falling_frame"
  "feq (downside_std ex_falling_frame) (Fin 0)"
  by (simp_all add: df_empty_def complete_frame_def ex_falling_frame_def downside_std_def
      negative_returns_def series_std_def dropna_def fsum_def fsub_def Let_def)

theorem ratio_sentinels_witness:
  "df_empty ex_empty_frame \<and>
   calculate_sharpe_ratio (performance_analyzer ex_engine) ex_empty_frame = Inr (Fin 0) \<and>
   calculate_sortino_ratio (performance_analyzer ex_engine) ex_empty_frame = Inr (Fin 0) \<and>
   calculate_calmar_ratio ex_empty_frame = Inr (Fin 0) \<and>
   \<not> df_empty ex_flat_frame \<and> complete_frame ex_flat_frame \<and>
   feq (calculate_volatility ex_flat_frame) (Fin 0) \<and>
   calculate_sharpe_ratio (performance_analyzer ex_engine) ex_flat_frame = Inr (Fin 0) \<and>
   no_negative_returns ex_flat_frame \<and>
   calculate_sortino_ratio (performance_analyzer ex_engine) ex_flat_frame = Inr PInf \<and>
   calculate_max_drawdown ex_flat_frame = Inr (Fin 0) \<and>
   calculate_calmar_ratio ex_flat_frame = Inr PInf \<and>
   \<not> df_empty ex_falling_frame \<and> complete_frame ex_falling_frame \<and>
   feq (downside_std ex_falling_frame) (Fin 0) \<and>
   calculate_sortino_ratio (performance_analyzer ex_engine) ex_falling_frame = Inr (Fin 0)"
proof -
  have e: "df_empty ex_empty_frame" by (simp add: df_empty_def ex_empty_frame_def)
  from ratio_sentinels [of ex_empty_frame "performance_analyzer ex_engine"] e
       ratio_sentinels [of ex_flat_frame "performance_analyzer ex_engine"] ex_flat_facts
       ratio_sentinels [of ex_falling_frame "performance_analyzer ex_engine"] ex_falling_facts
  show ?thesis by simp
qed

section \<open>Properties of the position manager\<close>

text \<open>
  C9. For a symbol with a position, \<open>update_position\<close> with \<open>is_buy = False\<close> and a
  quantity above the quantity held changes neither the cash nor the quantity, the average
  cost and the total cost of the position; it sets the current price of the position to
  the price given, and leaves every other position and the order of the symbols as they
  were.
\<close>

theorem oversized_sell_dropped:
  assumes "map_of (pm_positions pm) symbol = Some pos" and "quantity pos < qty"
  shows "let pm' = update_position pm symbol qty price False;
             pos' = pos\<lparr>current_price := price\<rparr>
         in pm' = pm\<lparr>pm_positions := AList.update symbol pos' (pm_positions pm)\<rparr> \<and>
            pm_cash pm' = pm_cash pm \<and>
            map_of (pm_positions pm') = (map_of (pm_positions pm))(symbol \<mapsto> pos') \<and>
            map fst (pm_positions pm') = map fst (pm_positions pm) \<and>
            quantity pos' = quantity pos \<and> avg_cost pos' = avg_cost pos \<and>
            total_cost pos' = total_cost pos \<and> current_price pos' = price"
proof -
  from assms(1) have "symbol \<in> fst ` set (pm_positions pm)"
    by (metis map_of_SomeD image_eqI fst_conv)
  with assms show ?thesis
    by (simp add: update_position_def update_conv' update_keys)
qed

theorem oversized_sell_dropped_witness:
  "map_of (pm_positions ex_pm) ''600000'' =
     Some \<lparr>quantity = 100, avg_cost = 10, total_cost = 1000, current_price = 12\<rparr> \<and>
   (100::int) < 150 \<and>
   update_position ex_pm ''600000'' 150 11 False =
     ex_pm\<lparr>pm_positions :=
        [(''600000'', \<lparr>quantity = 100, avg_cost = 10, total_cost = 1000, current_price = 11\<rparr>),
         (''000001'', \<lparr>quantity = 0, avg_cost = 0, total_cost = 0, current_price = 8\<rparr>)]\<rparr>"
proof -
  have h: "map_of (pm_positions ex_pm) ''600000'' =
     Some \<lparr>quantity = 100, avg_cost = 10, total_cost = 1000, current_price = 12\<rparr>"
    by (simp add: ex_pm_def)
  have q: "quantity \<lparr>quantity = 100, avg_cost = 10, total_cost = 1000, current_price = 12\<rparr> < 150"
    by simp
  from oversized_sell_dropped [OF h q, of 11] h show ?thesis
    by (simp add: ex_pm_def Let_def)
qed

text \<open>
  C10. \<open>clear_position\<close> returns 0 and changes nothing when the symbol has no position
  or a quantity that is not positive; otherwise it returns \<open>quantity * price\<close>, adds
  exactly that to the cash (no commission, stamp duty or slippage), and resets quantity,
  average cost and total cost of the position to 0, every other position unchanged.
\<close>

theorem clear_position_spec:
  "(map_of (pm_positions pm) symbol = None \<longrightarrow> clear_position pm symbol price = (0, pm)) \<and>
   (\<forall>pos. map_of (pm_positions pm) symbol = Some pos \<and> quantity pos \<le> 0 \<longrightarrow>
      clear_position pm symbol price = (0, pm)) \<and>
   (\<forall>pos. map_of (pm_positions pm) symbol = Some pos \<and> 0 < quantity pos \<longrightarrow>
      fst (clear_position pm symbol price) = real_of_int (quantity pos) * price \<and>
      pm_cash (snd (clear_position pm symbol price)) = pm_cash pm + real_of_int (quantity pos) * price \<and>
      pm_initial_capital (snd (clear_position pm symbol price)) = pm_initial_capital pm \<and>
      map_of (pm_positions (snd (clear_position pm symbol price))) =
        (map_of (pm_positions pm))(symbol \<mapsto>
           \<lparr>quantity = 0, avg_cost = 0, total_cost = 0, current_price = price\<rparr>))"
  by (simp add: clear_position_def update_conv' Let_def)

theorem clear_position_spec_witness:
  "clear_position ex_pm ''300750'' 20 = (0, ex_pm) \<and>
   clear_position ex_pm ''000001'' 9 = (0, ex_pm) \<and>
   clear_position ex_pm ''600000'' 11 =
     (1100, ex_pm\<lparr>pm_cash := 6100,
        pm_positions :=
        [(''600000'', \<lparr>quantity = 0, avg_cost = 0, total_cost = 0, current_price = 11\<rparr>),
         (''000001'', \<lparr>quantity = 0, avg_cost = 0, total_cost = 0, current_price = 8\<rparr>)]\<rparr>)"
proof -
  have a: "map_of (pm_positions ex_pm) ''300750'' = None" by (simp add: ex_pm_def)
  have b: "map_of (pm_positions ex_pm) ''000001'' =
      Some \<lparr>quantity = 0, avg_cost = 0, total_cost = 0, current_price = 8\<rparr>"
    by (simp add: ex_pm_def)
  have c: "map_of (pm_positions ex_pm) ''600000'' =
      Some \<lparr>quantity = 100, avg_cost = 10, total_cost = 1000, current_price = 12\<rparr>"
    by (simp add: ex_pm_def)
  from clear_position_spec [of ex_pm "''300750''" 20] a
  have 1: "clear_position ex_pm ''300750'' 20 = (0, ex_pm)" by blast
  from clear_position_spec [of ex_pm "''000001''" 9] b
  have 2: "clear_position ex_pm ''000001'' 9 = (0, ex_pm)" by simp
  from clear_position_spec [of ex_pm "''600000''" 11] c
  have 3: "fst (clear_position ex_pm ''600000'' 11) = 1100 \<and>
           pm_cash (snd (clear_position ex_pm ''600000'' 11)) = 6100" by (simp add: ex_pm_def)
  have 4: "pm_positions (snd (clear_position ex_pm ''600000'' 11)) =
        [(''600000'', \<lparr>quantity = 0, avg_cost = 0, total_cost = 0, current_price = 11\<rparr>),
         (''000001'', \<lparr>quantity = 0, avg_cost = 0, total_cost = 0, current_price = 8\<rparr>)]"
    by (simp add: clear_position_def ex_pm_def)
  have 5: "pm_initial_capital (snd (clear_position ex_pm ''600000'' 11)) = pm_initial_capital ex_pm"
    by (simp add: clear_position_def ex_pm_def)
  from 1 2 3 4 5 show ?thesis
    by (simp add: prod_eq_iff PositionManager.equality ex_pm_def)
qed

end
